theory Spec2Isabelle
  imports Main "HOL-Library.Sublist" "HOL-Library.Multiset"
begin

section \<open>kibctl: a command-line client for Kibana dashboards\<close>

text \<open>
  A shallow embedding of \<^verbatim>\<open>client.go\<close> and \<^verbatim>\<open>main.go\<close>. Go's \<^verbatim>\<open>string\<close> and
  \<^verbatim>\<open>[]byte\<close> are byte sequences, here \<open>string\<close>. A Go function returning
  \<^verbatim>\<open>(T, error)\<close> returns \<open>error + T\<close>; one returning only \<^verbatim>\<open>error\<close> returns
  \<open>error option\<close>, \<open>None\<close> for \<^verbatim>\<open>nil\<close>. Format strings are written out:
  \<^verbatim>\<open>%v\<close> of a string is the string.
\<close>

subsection \<open>Data\<close>

type_synonym bytes = string

text \<open>
  Errors: \<open>Errorf\<close> is \<^verbatim>\<open>errors.Errorf\<close> with its formatted message, \<open>Wrap\<close> is
  \<^verbatim>\<open>errors.Wrap\<close>/\<^verbatim>\<open>errors.Wrapf\<close>, \<open>LibError\<close> is an error handed up by
  \<^verbatim>\<open>net/http\<close>, \<^verbatim>\<open>io\<close>, \<^verbatim>\<open>encoding/json\<close> or \<^verbatim>\<open>sjson\<close>.
\<close>

datatype error = Errorf string | Wrap error string | LibError string

record attributes =
  Title :: string

record dashboard =
  ID :: string
  Attributes :: attributes

text \<open>The client; its embedded \<^verbatim>\<open>Logger\<close> is the \<^verbatim>\<open>cmdLogger\<close>, kept as its flag.\<close>

record client =
  Host :: string
  Username :: string
  Password :: string
  IsVerbose :: bool

text \<open>
  An HTTP request as the code builds it. \<^verbatim>\<open>SetBasicAuth\<close> is kept as the pair it was
  given. A response is read through \<^verbatim>\<open>ioutil.ReadAll(resp.Body)\<close> only, so \<open>Body\<close>
  is what that call returns: the bytes read and the read error, if any.
\<close>

record request =
  Method :: string
  URL :: string
  Header :: "(string \<times> string) list"
  BasicAuth :: "(string \<times> string) option"
  Payload :: "bytes option"

record response =
  StatusCode :: nat
  Status :: string
  Body :: "bytes \<times> error option"

text \<open>
  The effects of a run: the requests handed to \<^verbatim>\<open>http.DefaultClient.Do\<close>, in order, and
  what went to standard output, in order: a \<^verbatim>\<open>Write\<close> of bytes, or a line of the
  logger (which prints to standard output behind a timestamp, left out here).
\<close>

datatype out_event = Written bytes | Logged string

record world =
  sent :: "request list"
  stdout :: "out_event list"

text \<open>
  What the code calls and does not define: the server behind
  \<^verbatim>\<open>http.DefaultClient.Do\<close>, the libraries \<^verbatim>\<open>gjson\<close> (with its result type \<open>'r\<close>),
  \<^verbatim>\<open>sjson\<close>, \<^verbatim>\<open>encoding/json\<close>, \<^verbatim>\<open>net/url\<close> (through \<^verbatim>\<open>http.NewRequest\<close>),
  \<^verbatim>\<open>unicode/utf8\<close> (through \<^verbatim>\<open>fmt\<close>'s padding), standard input, and the order in
  which \<^verbatim>\<open>range\<close> visits the keys of a map. All are parameters.

  Within one run of any command every request differs from the others (the three
  kinds of URL differ after the host, and the index-pattern names are distinct), so a
  server answering by the request alone loses no run.
\<close>

record 'r env =
  url_Parse :: "string \<Rightarrow> error option"
  http_Do :: "request \<Rightarrow> error + response"
  gjson_Get :: "string \<Rightarrow> string \<Rightarrow> 'r"
  gjson_Array :: "'r \<Rightarrow> 'r list"
  gjson_String :: "'r \<Rightarrow> string"
  gjson_Exists :: "'r \<Rightarrow> bool"
  sjson_SetRawBytes :: "bytes \<Rightarrow> string \<Rightarrow> bytes \<Rightarrow> bytes \<times> error option"
  json_Unmarshal :: "bytes \<Rightarrow> error + dashboard"
  range_keys :: "string list \<Rightarrow> string list"
  utf8_RuneCountInString :: "string \<Rightarrow> nat"
  os_Stdin :: "bytes \<times> error option"

subsection \<open>Library calls written out\<close>

text \<open>\<^verbatim>\<open>http.NewRequest\<close> fails when the URL does not parse (both methods used are valid).\<close>

definition NewRequest :: "'r env \<Rightarrow> string \<Rightarrow> string \<Rightarrow> bytes option \<Rightarrow> error + request" where
  "NewRequest env method u body =
     (case url_Parse env u of
        Some err \<Rightarrow> Inl err
      | None \<Rightarrow> Inr \<lparr>Method = method, URL = u, Header = [], BasicAuth = None, Payload = body\<rparr>)"

definition Header_Set :: "string \<Rightarrow> string \<Rightarrow> request \<Rightarrow> request" where
  "Header_Set k v req = req\<lparr>Header := filter (\<lambda>kv. fst kv \<noteq> k) (Header req) @ [(k, v)]\<rparr>"

definition SetBasicAuth :: "string \<Rightarrow> string \<Rightarrow> request \<Rightarrow> request" where
  "SetBasicAuth u p req = req\<lparr>BasicAuth := Some (u, p)\<rparr>"

definition DefaultClient_Do :: "'r env \<Rightarrow> request \<Rightarrow> world \<Rightarrow> (error + response) \<times> world" where
  "DefaultClient_Do env req w = (http_Do env req, w\<lparr>sent := sent w @ [req]\<rparr>)"

text \<open>\<^verbatim>\<open>cmdLogger.Printf\<close>: prints only when verbose.\<close>

definition Printf :: "client \<Rightarrow> string \<Rightarrow> world \<Rightarrow> world" where
  "Printf c msg w = (if IsVerbose c then w\<lparr>stdout := stdout w @ [Logged msg]\<rparr> else w)"

text \<open>
  \<^verbatim>\<open>strings.Replace(s, `\"`, `"`, -1)\<close>: every backslash followed by a double quote
  becomes the double quote, left to right, without overlap.
\<close>

fun unescape_quotes :: "string \<Rightarrow> string" where
  "unescape_quotes (a # b # cs) =
     (if a = CHR 0x5C \<and> b = CHR 0x22 then b # unescape_quotes cs
      else a # unescape_quotes (b # cs))"
| "unescape_quotes cs = cs"

text \<open>
  A Go \<^verbatim>\<open>map[string]struct{}\<close> is kept as the list of its keys, each once; the order of
  the list means nothing, \<open>range_keys\<close> decides the order of a \<^verbatim>\<open>range\<close> over it.
\<close>

definition map_put :: "string \<Rightarrow> string list \<Rightarrow> string list" where
  "map_put k names = (if k \<in> set names then names else names @ [k])"

subsection \<open>client.go\<close>

definition client_import :: "'r env \<Rightarrow> client \<Rightarrow> bytes \<Rightarrow> world \<Rightarrow> error option \<times> world" where
  "client_import env c payload w0 =
     (let w1 = Printf c (''importing dashboard:\<newline>'' @ payload @ ''\<newline>'') w0;
          u = Host c @ ''/api/kibana/dashboards/import?force=true''
      in case NewRequest env ''POST'' u (Some payload) of
           Inl err \<Rightarrow> (Some err, w1)
         | Inr req0 \<Rightarrow>
            (let req1 = Header_Set ''Content-Type'' ''application/json'' req0;
                 req2 = Header_Set ''kbn-xsrf'' ''true'' req1;
                 req = SetBasicAuth (Username c) (Password c) req2
             in case DefaultClient_Do env req w1 of
                  (Inl err, w2) \<Rightarrow> (Some err, w2)
                | (Inr resp, w2) \<Rightarrow>
                   (let details = fst (Body resp) in
                    if StatusCode resp \<noteq> 200 then
                      (Some (Errorf (''failed to import dashboard. Status:'' @ Status resp
                          @ ''. Response:'' @ details @ ''.\<newline>'')), w2)
                    else (None, Printf c (''SUCCESS\<newline>'' @ details @ ''\<newline>'') w2))))"

text \<open>The loop of \<^verbatim>\<open>searchDashboard\<close> over the elements of \<^verbatim>\<open>saved_objects\<close>.\<close>

fun parse_dashboards :: "'r env \<Rightarrow> 'r list \<Rightarrow> dashboard list \<Rightarrow> error + dashboard list" where
  "parse_dashboards env [] dashboards = Inr dashboards"
| "parse_dashboards env (v # rest) dashboards =
     (case json_Unmarshal env (gjson_String env v) of
        Inl err \<Rightarrow> Inl (Wrap err ''could not parse dashboard definition'')
      | Inr d \<Rightarrow> parse_dashboards env rest (dashboards @ [d]))"

definition searchDashboard ::
  "'r env \<Rightarrow> client \<Rightarrow> string \<Rightarrow> world \<Rightarrow> (error + dashboard list) \<times> world" where
  "searchDashboard env c pattern w =
     (let u = Host c
            @ ''/api/saved_objects/_find?type=dashboard&per_page=200&search_fields=title&search=''
            @ pattern
      in case NewRequest env ''GET'' u None of
           Inl err \<Rightarrow> (Inl err, w)
         | Inr req0 \<Rightarrow>
            (let req = SetBasicAuth (Username c) (Password c) req0
             in case DefaultClient_Do env req w of
                  (Inl err, w1) \<Rightarrow> (Inl err, w1)
                | (Inr resp, w1) \<Rightarrow>
                   if StatusCode resp \<noteq> 200 then
                     (Inl (Errorf (''failed to search dashboard name '' @ pattern
                        @ ''. Status:'' @ Status resp
                        @ ''. Response:'' @ fst (Body resp) @ ''.\<newline>'')), w1)
                   else
                     (case Body resp of
                        (body, Some err) \<Rightarrow> (Inl err, w1)
                      | (body, None) \<Rightarrow>
                         (parse_dashboards env
                            (gjson_Array env (gjson_Get env body ''saved_objects'')) [], w1))))"

definition getDashboard :: "'r env \<Rightarrow> client \<Rightarrow> string \<Rightarrow> world \<Rightarrow> (error + bytes) \<times> world" where
  "getDashboard env c ident w =
     (let u = Host c @ ''/api/kibana/dashboards/export?dashboard='' @ ident
      in case NewRequest env ''GET'' u None of
           Inl err \<Rightarrow> (Inl err, w)
         | Inr req0 \<Rightarrow>
            (let req = SetBasicAuth (Username c) (Password c) req0
             in case DefaultClient_Do env req w of
                  (Inl err, w1) \<Rightarrow> (Inl err, w1)
                | (Inr resp, w1) \<Rightarrow>
                   if StatusCode resp \<noteq> 200 then
                     (Inl (Errorf (''failed to retrieve dashboard id '' @ ident
                        @ ''. Status:'' @ Status resp
                        @ ''. Response:'' @ fst (Body resp) @ ''.\<newline>'')), w1)
                   else
                     (case Body resp of
                        (body, Some err) \<Rightarrow> (Inl err, w1)
                      | (body, None) \<Rightarrow> (Inr body, w1))))"

text \<open>The first loop of \<^verbatim>\<open>scanForIndexPatterns\<close>, over the \<^verbatim>\<open>visState\<close> values.\<close>

fun scan_loop :: "'r env \<Rightarrow> 'r list \<Rightarrow> string list \<Rightarrow> string list" where
  "scan_loop env [] names = names"
| "scan_loop env (v # vals) names =
     (let visualisation = unescape_quotes (gjson_String env v);
          index = gjson_Get env visualisation ''params.index_pattern''
      in scan_loop env vals
           (if gjson_Exists env index then map_put (gjson_String env index) names else names))"

definition scanForIndexPatterns :: "'r env \<Rightarrow> client \<Rightarrow> bytes \<Rightarrow> error + string list" where
  "scanForIndexPatterns env c dashboard =
     (let names = scan_loop env
            (gjson_Array env (gjson_Get env dashboard ''objects.#.attributes.visState'')) []
      in Inr (range_keys env names))"

definition getIndexPattern :: "'r env \<Rightarrow> client \<Rightarrow> string \<Rightarrow> world \<Rightarrow> (error + bytes) \<times> world" where
 \<open>getIndexPattern env c name w =
     (let u = Host c
            @ ''/api/saved_objects/_find?type=index-pattern&search_fields=title&search="''
            @ name @ ''"''
      in case NewRequest env ''GET'' u None of
           Inl err \<Rightarrow> (Inl err, w)
         | Inr req0 \<Rightarrow>
            (let req = SetBasicAuth (Username c) (Password c) req0
             in case DefaultClient_Do env req w of
                  (Inl err, w1) \<Rightarrow> (Inl err, w1)
                | (Inr resp, w1) \<Rightarrow>
                   if StatusCode resp \<noteq> 200 then
                     (Inl (Errorf (''failed to retrieve index-pattern title '' @ name
                        @ ''. Status:'' @ Status resp
                        @ ''. Response: '' @ fst (Body resp) @ ''.\<newline>'')), w1)
                   else
                     (case Body resp of
                        (json, Some err) \<Rightarrow> (Inl err, w1)
                      | (json, None) \<Rightarrow>
                         (let patterns = gjson_Array env (gjson_Get env json ''saved_objects'')
                          in if length patterns = 0 then
                               (Inl (Errorf (''no index-pattern found matching: '' @ name
                                  @ ''.\<newline>'')), w1)
                             else if length patterns > 1 then
                               (Inl (Errorf (''More than one index-pattern found matching: ''
                                  @ name @ ''.\<newline>'')), w1)
                             else (Inr (gjson_String env (patterns ! 0)), w1)))))\<close>

text \<open>
  The loop of \<^verbatim>\<open>export\<close> over the names. The error of \<^verbatim>\<open>sjson.SetRawBytes\<close> is
  assigned to the loop's \<^verbatim>\<open>err\<close> and not read again.
\<close>

fun export_loop ::
  "'r env \<Rightarrow> client \<Rightarrow> string list \<Rightarrow> bytes \<Rightarrow> world \<Rightarrow> (error + bytes) \<times> world" where
  "export_loop env c [] dashboard w = (Inr dashboard, w)"
| "export_loop env c (name # names) dashboard w =
     (case getIndexPattern env c name w of
        (Inl err, w1) \<Rightarrow> (Inl err, w1)
      | (Inr indexPattern, w1) \<Rightarrow>
         (let w2 = Printf c (''adding index-template '' @ name) w1;
              (dashboard', err) = sjson_SetRawBytes env dashboard ''objects.-1'' indexPattern
          in export_loop env c names dashboard' w2))"

definition client_export :: "'r env \<Rightarrow> client \<Rightarrow> string \<Rightarrow> world \<Rightarrow> (error + bytes) \<times> world" where
 \<open>client_export env c name w0 =
     (let w1 = Printf c (''searching dashboards matching name '' @ name @ ''\<newline>'') w0
      in case searchDashboard env c (''"'' @ name @ ''"'') w1 of
           (Inl err, w2) \<Rightarrow> (Inl err, w2)
         | (Inr result, w2) \<Rightarrow>
            if length result = 0 then
              (Inl (Errorf (''no dashboard found matching: '' @ name @ ''.\<newline>'')), w2)
            else if length result > 1 then
              (Inl (Errorf (''more than one dashboard found matching: '' @ name @ ''.\<newline>'')), w2)
            else
              (let w3 = Printf c (''found dashboard id '' @ ID (result ! 0)) w2;
                   w4 = Printf c ''retrieving partial dashboard export from api...\<newline>'' w3
               in case getDashboard env c (ID (result ! 0)) w4 of
                    (Inl err, w5) \<Rightarrow> (Inl err, w5)
                  | (Inr dashboard, w5) \<Rightarrow>
                     (case scanForIndexPatterns env c dashboard of
                        Inl err \<Rightarrow> (Inl err, w5)
                      | Inr indiceNames \<Rightarrow> export_loop env c indiceNames dashboard w5)))\<close>

subsection \<open>main.go\<close>

record globals =
  verbose :: bool
  host :: string
  username :: string
  password :: string

text \<open>\<^verbatim>\<open>cli.NewExitError(message, exitCode)\<close>, the message a string or an error.\<close>

datatype exit_message = Message string | FromError error

datatype exit_error = ExitError exit_message int

definition newClient :: "globals \<Rightarrow> client" where
  "newClient g = \<lparr>Host = host g, Username = username g, Password = password g,
                  IsVerbose = verbose g\<rparr>"

definition checkGlobals :: "globals \<Rightarrow> exit_error option" where
  "checkGlobals g =
     (if host g = '''' then Some (ExitError (Message ''kibana host not defined'') 1)
      else if username g = '''' then Some (ExitError (Message ''kibana username not defined'') 1)
      else if password g = '''' then Some (ExitError (Message ''kibana password not defined'') 1)
      else None)"

text \<open>\<^verbatim>\<open>c.Args().First()\<close>: the first argument, or the empty string.\<close>

definition First :: "string list \<Rightarrow> string" where
  "First args = (case args of [] \<Rightarrow> '''' | a # _ \<Rightarrow> a)"

definition Write :: "bytes \<Rightarrow> world \<Rightarrow> world" where
  "Write b w = w\<lparr>stdout := stdout w @ [Written b]\<rparr>"

text \<open>
  \<^verbatim>\<open>fmt.Sprintf("%-40v %v\n", a, b)\<close>: with the minus flag \<^verbatim>\<open>fmt\<close> writes \<open>a\<close> and then
  the padding, spaces up to a width of 40 counted in runes.
\<close>

definition Sprintf_row :: "'r env \<Rightarrow> string \<Rightarrow> string \<Rightarrow> string" where
  "Sprintf_row env a b =
     a @ replicate (40 - utf8_RuneCountInString env a) (CHR '' '') @ '' '' @ b @ ''\<newline>''"

definition import_action :: "'r env \<Rightarrow> globals \<Rightarrow> string list \<Rightarrow> world \<Rightarrow> exit_error option \<times> world" where
  "import_action env g args w =
     (case os_Stdin env of
        (bytes, Some err) \<Rightarrow>
          (Some (ExitError (FromError (Wrap err ''could not read import input'')) 2), w)
      | (bytes, None) \<Rightarrow>
          (case client_import env (newClient g) bytes w of
             (Some err, w1) \<Rightarrow> (Some (ExitError (FromError err) 2), w1)
           | (None, w1) \<Rightarrow> (None, w1)))"

definition export_action :: "'r env \<Rightarrow> globals \<Rightarrow> string list \<Rightarrow> world \<Rightarrow> exit_error option \<times> world" where
  "export_action env g args w =
     (case checkGlobals g of
        Some err \<Rightarrow> (Some err, w)
      | None \<Rightarrow>
         (let name = First args
          in if name = '''' then (Some (ExitError (Message ''dashboard name missing'') 1), w)
             else (case client_export env (newClient g) name w of
                     (Inl err, w1) \<Rightarrow> (Some (ExitError (FromError err) 2), w1)
                   | (Inr dashboard, w1) \<Rightarrow> (None, Write dashboard w1))))"

fun list_loop :: "'r env \<Rightarrow> dashboard list \<Rightarrow> world \<Rightarrow> world" where
  "list_loop env [] w = w"
| "list_loop env (val # rest) w =
     list_loop env rest (Write (Sprintf_row env (ID val) (Title (Attributes val))) w)"

definition list_action :: "'r env \<Rightarrow> globals \<Rightarrow> string list \<Rightarrow> world \<Rightarrow> exit_error option \<times> world" where
  "list_action env g args w =
     (case checkGlobals g of
        Some err \<Rightarrow> (Some err, w)
      | None \<Rightarrow>
         (let pattern = First args
          in case searchDashboard env (newClient g) pattern w of
               (Inl err, w1) \<Rightarrow> (Some (ExitError (FromError err) 2), w1)
             | (Inr dashboards, w1) \<Rightarrow>
                (None, list_loop env dashboards (Write (Sprintf_row env ''ID'' ''NAME'') w1))))"

subsection \<open>Answers without the effects\<close>

text \<open>
  The answer of each call is decided by the environment alone; the world only records
  what was sent and printed. \<open>idle\<close> is the world before a run.
\<close>

definition idle :: world where
  "idle = \<lparr>sent = [], stdout = []\<rparr>"

definition found :: "'r env \<Rightarrow> client \<Rightarrow> string \<Rightarrow> error + dashboard list" where
  "found env c pattern = fst (searchDashboard env c pattern idle)"

definition fetched :: "'r env \<Rightarrow> client \<Rightarrow> string \<Rightarrow> error + bytes" where
  "fetched env c ident = fst (getDashboard env c ident idle)"

definition lookup :: "'r env \<Rightarrow> client \<Rightarrow> string \<Rightarrow> error + bytes" where
  "lookup env c name = fst (getIndexPattern env c name idle)"

text \<open>The loop of \<^verbatim>\<open>export\<close> with the world left out.\<close>

fun resolve_all :: "'r env \<Rightarrow> client \<Rightarrow> string list \<Rightarrow> bytes \<Rightarrow> error + bytes" where
  "resolve_all env c [] dashboard = Inr dashboard"
| "resolve_all env c (name # names) dashboard =
     (case lookup env c name of
        Inl err \<Rightarrow> Inl err
      | Inr indexPattern \<Rightarrow>
          resolve_all env c names
            (fst (sjson_SetRawBytes env dashboard ''objects.-1'' indexPattern)))"

subsection \<open>Notions of the statements\<close>

text \<open>
  The elements of a document's \<^verbatim>\<open>objects\<close> array, each as the text \<^verbatim>\<open>String()\<close>
  gives for it (for a JSON object, its raw text).
\<close>

definition objects :: "'r env \<Rightarrow> bytes \<Rightarrow> string list" where
  "objects env doc = map (gjson_String env) (gjson_Array env (gjson_Get env doc ''objects''))"

text \<open>The values the scanner walks over, as texts.\<close>

definition visStates :: "'r env \<Rightarrow> bytes \<Rightarrow> string list" where
  "visStates env doc =
     map (gjson_String env)
       (gjson_Array env (gjson_Get env doc ''objects.#.attributes.visState''))"

text \<open>What the scanner reads in one \<^verbatim>\<open>visState\<close> text.\<close>

definition index_pattern_of :: "'r env \<Rightarrow> string \<Rightarrow> 'r" where
  "index_pattern_of env vis = gjson_Get env (unescape_quotes vis) ''params.index_pattern''"

text \<open>
  The index-pattern names referenced by a list of \<^verbatim>\<open>visState\<close> texts: one entry for
  each text that has \<^verbatim>\<open>params.index_pattern\<close>, in order, repetitions kept.
\<close>

definition referenced :: "'r env \<Rightarrow> string list \<Rightarrow> string list" where
  "referenced env vs =
     map (\<lambda>v. gjson_String env (index_pattern_of env v))
       (filter (\<lambda>v. gjson_Exists env (index_pattern_of env v)) vs)"

definition found_names :: "'r env \<Rightarrow> bytes \<Rightarrow> string list" where
  "found_names env doc = referenced env (visStates env doc)"

text \<open>The \<^verbatim>\<open>visState\<close> of one element of \<^verbatim>\<open>objects\<close>, the element given as its text.\<close>

definition visState_of :: "'r env \<Rightarrow> string \<Rightarrow> 'r" where
  "visState_of env obj = gjson_Get env obj ''attributes.visState''"

text \<open>
  What \<^verbatim>\<open>gjson\<close> documents for a path through \<^verbatim>\<open>#\<close>, said of one document: the
  path \<^verbatim>\<open>objects.#.attributes.visState\<close> gives, in order, the
  \<^verbatim>\<open>attributes.visState\<close> of each element of \<^verbatim>\<open>objects\<close> that has one.
\<close>

definition each_visState :: "'r env \<Rightarrow> bytes \<Rightarrow> bool" where
  "each_visState env doc =
     (visStates env doc =
        map (gjson_String env)
          (filter (gjson_Exists env) (map (visState_of env) (objects env doc))))"

text \<open>
  What Go promises of \<^verbatim>\<open>range\<close> over a map: every key is visited once, in an order
  left open.
\<close>

definition range_visits_once :: "'r env \<Rightarrow> bool" where
  "range_visits_once env = (\<forall>ks. distinct ks \<longrightarrow> mset (range_keys env ks) = mset ks)"

text \<open>
  One append succeeds: \<^verbatim>\<open>sjson.SetRawBytes\<close> reports no error and the new document's
  \<^verbatim>\<open>objects\<close> are the old ones followed by the record.
\<close>

definition append_ok :: "'r env \<Rightarrow> bytes \<Rightarrow> bytes \<Rightarrow> bool" where
  "append_ok env doc record =
     (case sjson_SetRawBytes env doc ''objects.-1'' record of
        (doc', None) \<Rightarrow> objects env doc' = objects env doc @ [record]
      | (doc', Some err) \<Rightarrow> False)"

text \<open>Every dependency lookup and every append of the loop succeeds.\<close>

fun deps_succeed :: "'r env \<Rightarrow> client \<Rightarrow> string list \<Rightarrow> bytes \<Rightarrow> bool" where
  "deps_succeed env c [] doc = True"
| "deps_succeed env c (name # names) doc =
     (case lookup env c name of
        Inl err \<Rightarrow> False
      | Inr record \<Rightarrow>
          append_ok env doc record \<and>
          deps_succeed env c names (fst (sjson_SetRawBytes env doc ''objects.-1'' record)))"

subsection \<open>The requests the client builds\<close>

definition dashboard_search_request :: "client \<Rightarrow> string \<Rightarrow> request" where
  "dashboard_search_request c pattern =
     \<lparr>Method = ''GET'',
      URL = Host c
        @ ''/api/saved_objects/_find?type=dashboard&per_page=200&search_fields=title&search=''
        @ pattern,
      Header = [], BasicAuth = Some (Username c, Password c), Payload = None\<rparr>"

definition dashboard_export_request :: "client \<Rightarrow> string \<Rightarrow> request" where
  "dashboard_export_request c ident =
     \<lparr>Method = ''GET'', URL = Host c @ ''/api/kibana/dashboards/export?dashboard='' @ ident,
      Header = [], BasicAuth = Some (Username c, Password c), Payload = None\<rparr>"

definition index_pattern_request :: "client \<Rightarrow> string \<Rightarrow> request" where
 \<open>index_pattern_request c name =
     \<lparr>Method = ''GET'',
      URL = Host c
        @ ''/api/saved_objects/_find?type=index-pattern&search_fields=title&search="''
        @ name @ ''"'',
      Header = [], BasicAuth = Some (Username c, Password c), Payload = None\<rparr>\<close>

definition import_request :: "client \<Rightarrow> bytes \<Rightarrow> request" where
  "import_request c payload =
     \<lparr>Method = ''POST'', URL = Host c @ ''/api/kibana/dashboards/import?force=true'',
      Header = [(''Content-Type'', ''application/json''), (''kbn-xsrf'', ''true'')],
      BasicAuth = Some (Username c, Password c), Payload = Some payload\<rparr>"

text \<open>The URL parses and the server answers the request with status 200 and this body.\<close>

definition answers :: "'r env \<Rightarrow> request \<Rightarrow> bytes \<Rightarrow> bool" where
  "answers env req body =
     (url_Parse env (URL req) = None \<and>
      (case http_Do env req of
         Inl err \<Rightarrow> False
       | Inr resp \<Rightarrow> StatusCode resp = 200 \<and> Body resp = (body, None)))"

subsection \<open>A server and libraries to run the code on\<close>

text \<open>
  A small Kibana: the dashboards \<open>Sales\<close> (three visualisations on \<open>logs-*\<close>,
  \<open>logs-*\<close> and \<open>metrics-*\<close>, and a markdown panel), \<open>Sales EU\<close> and \<open>Ops\<close>
  (visualisations on \<open>logs-*\<close> and on \<open>audit\<close>, a title that two index patterns
  match). The libraries are given by what they return on the texts of this server.
\<close>

datatype demo_result = Missing | Value string "demo_result list"

fun demo_String :: "demo_result \<Rightarrow> string" where
  "demo_String Missing = ''''"
| "demo_String (Value s xs) = s"

fun demo_Array :: "demo_result \<Rightarrow> demo_result list" where
  "demo_Array Missing = []"
| "demo_Array (Value s xs) = xs"

fun demo_Exists :: "demo_result \<Rightarrow> bool" where
  "demo_Exists Missing = False"
| "demo_Exists (Value s xs) = True"

fun join :: "string list \<Rightarrow> string" where
  "join [] = ''''"
| "join [x] = x"
| "join (x # y # zs) = x @ '','' @ join (y # zs)"

definition with_objects :: "string list \<Rightarrow> string" where
 \<open>with_objects xs = ''{"objects":['' @ join xs @ '']}''\<close>

definition with_saved_objects :: "string list \<Rightarrow> string" where
 \<open>with_saved_objects xs = ''{"saved_objects":['' @ join xs @ '']}''\<close>

definition bq :: string where
  "bq = [CHR 0x5C, CHR 0x22]"

definition vis_text :: "string \<Rightarrow> string" where
 \<open>vis_text name = ''{"params":{"index_pattern":"'' @ name @ ''"}}''\<close>

definition vis_object :: "string \<Rightarrow> string" where
 \<open>vis_object name =
    ''{"type":"visualization","attributes":{"visState":"{'' @ bq @ ''params'' @ bq @ '':{''
      @ bq @ ''index_pattern'' @ bq @ '':'' @ bq @ name @ bq @ ''}}"}}''\<close>

definition md_text :: string where
 \<open>md_text = ''{"type":"markdown","params":{}}''\<close>

definition md_object :: string where
 \<open>md_object =
    ''{"type":"visualization","attributes":{"visState":"{'' @ bq @ ''type'' @ bq @ '':''
      @ bq @ ''markdown'' @ bq @ '','' @ bq @ ''params'' @ bq @ '':{}}"}}''\<close>

definition dash_object :: string where
 \<open>dash_object = ''{"id":"abc123","type":"dashboard","attributes":{"title":"Sales"}}''\<close>

definition ip_record :: "string \<Rightarrow> string \<Rightarrow> string" where
 \<open>ip_record ident title =
    ''{"id":"'' @ ident @ ''","type":"index-pattern","attributes":{"title":"'' @ title @ ''"}}''\<close>

definition dashboard_record :: "string \<Rightarrow> string \<Rightarrow> string" where
 \<open>dashboard_record ident title =
    ''{"id":"'' @ ident @ ''","attributes":{"title":"'' @ title @ ''"}}''\<close>

definition sales_objects :: "string list" where
  "sales_objects =
     [dash_object, vis_object ''logs-*'', vis_object ''logs-*'', md_object, vis_object ''metrics-*'']"

definition ops_objects :: "string list" where
  "ops_objects = [vis_object ''logs-*'', vis_object ''audit'']"

definition demo_client :: client where
  "demo_client = \<lparr>Host = ''http://kibana:5601'', Username = ''elastic'',
                    Password = ''changeme'', IsVerbose = False\<rparr>"

definition demo_pages :: "(string \<times> string) list" where
 \<open>demo_pages =
    [(URL (dashboard_search_request demo_client ''"Sales"''),
        with_saved_objects [dashboard_record ''abc123'' ''Sales'']),
     (URL (dashboard_search_request demo_client ''"Ops"''),
        with_saved_objects [dashboard_record ''ops1'' ''Ops'']),
     (URL (dashboard_search_request demo_client ''"Sal"''),
        with_saved_objects [dashboard_record ''abc123'' ''Sales'', dashboard_record ''def456'' ''Sales EU'']),
     (URL (dashboard_search_request demo_client ''Sal''),
        with_saved_objects [dashboard_record ''abc123'' ''Sales'', dashboard_record ''def456'' ''Sales EU'']),
     (URL (dashboard_search_request demo_client ''"Nothing"''), with_saved_objects []),
     (URL (dashboard_export_request demo_client ''abc123''), with_objects sales_objects),
     (URL (dashboard_export_request demo_client ''ops1''), with_objects ops_objects),
     (URL (index_pattern_request demo_client ''logs-*''),
        with_saved_objects [ip_record ''ip1'' ''logs-*'']),
     (URL (index_pattern_request demo_client ''metrics-*''),
        with_saved_objects [ip_record ''ip2'' ''metrics-*'']),
     (URL (index_pattern_request demo_client ''audit''),
        with_saved_objects [ip_record ''ip3'' ''audit-2023'', ip_record ''ip4'' ''audit-2024'']),
     (URL (index_pattern_request demo_client ''traces-*''), with_saved_objects []),
     (URL (import_request demo_client ''''), ''{"objects":[]}'')]\<close>

definition demo_Do :: "request \<Rightarrow> error + response" where
 \<open>demo_Do req =
    (if \<not> prefix ''http://'' (URL req) then Inl (LibError ''unsupported protocol scheme'')
     else case map_of demo_pages (URL req) of
       Some body \<Rightarrow> Inr \<lparr>StatusCode = 200, Status = ''200 OK'', Body = (body, None)\<rparr>
     | None \<Rightarrow> Inr \<lparr>StatusCode = 404, Status = ''404 Not Found'',
                     Body = (''{"statusCode":404,"error":"Not Found"}'', None)\<rparr>)\<close>

text \<open>The arrays \<^verbatim>\<open>saved_objects\<close> and \<^verbatim>\<open>objects\<close> of the texts of this server.\<close>

definition demo_saved_objects :: "(string \<times> string list) list" where
  "demo_saved_objects =
     map (\<lambda>xs. (with_saved_objects xs, xs))
       [[dashboard_record ''abc123'' ''Sales''],
        [dashboard_record ''ops1'' ''Ops''],
        [dashboard_record ''abc123'' ''Sales'', dashboard_record ''def456'' ''Sales EU''],
        [],
        [ip_record ''ip1'' ''logs-*''],
        [ip_record ''ip2'' ''metrics-*''],
        [ip_record ''ip3'' ''audit-2023'', ip_record ''ip4'' ''audit-2024'']]"

definition demo_objects :: "(string \<times> string list) list" where
  "demo_objects =
     map (\<lambda>xs. (with_objects xs, xs))
       [sales_objects,
        sales_objects @ [ip_record ''ip1'' ''logs-*''],
        sales_objects @ [ip_record ''ip1'' ''logs-*'', ip_record ''ip2'' ''metrics-*''],
        rev sales_objects,
        ops_objects,
        ops_objects @ [ip_record ''ip1'' ''logs-*'']]"

definition demo_visState :: "(string \<times> string) list" where
  "demo_visState =
     [(vis_object ''logs-*'', vis_text ''logs-*''),
      (vis_object ''metrics-*'', vis_text ''metrics-*''),
      (vis_object ''audit'', vis_text ''audit''),
      (md_object, md_text)]"

definition demo_index_pattern :: "(string \<times> string) list" where
  "demo_index_pattern =
     [(vis_text ''logs-*'', ''logs-*''),
      (vis_text ''metrics-*'', ''metrics-*''),
      (vis_text ''audit'', ''audit'')]"

definition leaf :: "string \<Rightarrow> demo_result" where
  "leaf s = Value s []"

definition demo_Get :: "string \<Rightarrow> string \<Rightarrow> demo_result" where
  "demo_Get json path =
     (if path = ''saved_objects'' then
        (case map_of demo_saved_objects json of
           Some xs \<Rightarrow> Value (''['' @ join xs @ '']'') (map leaf xs)
         | None \<Rightarrow> Missing)
      else if path = ''objects'' then
        (case map_of demo_objects json of
           Some xs \<Rightarrow> Value (''['' @ join xs @ '']'') (map leaf xs)
         | None \<Rightarrow> Missing)
      else if path = ''objects.#.attributes.visState'' then
        (case map_of demo_objects json of
           Some xs \<Rightarrow> Value '''' (map leaf (List.map_filter (map_of demo_visState) xs))
         | None \<Rightarrow> Missing)
      else if path = ''attributes.visState'' then
        (case map_of demo_visState json of Some v \<Rightarrow> leaf v | None \<Rightarrow> Missing)
      else if path = ''params.index_pattern'' then
        (case map_of demo_index_pattern json of Some n \<Rightarrow> leaf n | None \<Rightarrow> Missing)
      else Missing)"

definition demo_SetRawBytes :: "bytes \<Rightarrow> string \<Rightarrow> bytes \<Rightarrow> bytes \<times> error option" where
  "demo_SetRawBytes json path raw =
     (if path = ''objects.-1'' then
        (case map_of demo_objects json of
           Some xs \<Rightarrow> (with_objects (xs @ [raw]), None)
         | None \<Rightarrow> (json, Some (LibError ''json must be an object or array'')))
      else (json, Some (LibError ''path not supported'')))"

definition demo_Unmarshal :: "bytes \<Rightarrow> error + dashboard" where
  "demo_Unmarshal data =
     (case map_of
        [(dashboard_record ''abc123'' ''Sales'',
            \<lparr>ID = ''abc123'', Attributes = \<lparr>Title = ''Sales''\<rparr>\<rparr>),
         (dashboard_record ''def456'' ''Sales EU'',
            \<lparr>ID = ''def456'', Attributes = \<lparr>Title = ''Sales EU''\<rparr>\<rparr>),
         (dashboard_record ''ops1'' ''Ops'',
            \<lparr>ID = ''ops1'', Attributes = \<lparr>Title = ''Ops''\<rparr>\<rparr>)] data of
        Some d \<Rightarrow> Inr d
      | None \<Rightarrow> Inl (LibError ''unexpected end of JSON input''))"

definition demo_env :: "demo_result env" where
  "demo_env =
     \<lparr>url_Parse = (\<lambda>u. None),
      http_Do = demo_Do,
      gjson_Get = demo_Get,
      gjson_Array = demo_Array,
      gjson_String = demo_String,
      gjson_Exists = demo_Exists,
      sjson_SetRawBytes = demo_SetRawBytes,
      json_Unmarshal = demo_Unmarshal,
      range_keys = (\<lambda>ks. ks),
      utf8_RuneCountInString = length,
      os_Stdin = (with_objects sales_objects, None)\<rparr>"

definition demo_globals :: globals where
  "demo_globals = \<lparr>verbose = False, host = ''http://kibana:5601'', username = ''elastic'',
                     password = ''changeme''\<rparr>"

text \<open>What a run has written to standard output, the logger's lines left out.\<close>

definition written :: "world \<Rightarrow> bytes list" where
  "written w = concat (map (\<lambda>ev. case ev of Written b \<Rightarrow> [b] | Logged msg \<Rightarrow> []) (stdout w))"

text \<open>The same server with an \<^verbatim>\<open>sjson\<close> whose every call fails and hands back its input.\<close>

definition failing_env :: "demo_result env" where
  "failing_env =
     demo_env\<lparr>sjson_SetRawBytes := (\<lambda>json path raw. (json, Some (LibError ''sjson: no change'')))\<rparr>"

text \<open>
  An element of \<^verbatim>\<open>objects\<close> (given as its text) carries an index-pattern name when it
  has a \<^verbatim>\<open>visState\<close> and that \<^verbatim>\<open>visState\<close>, unescaped, has
  \<^verbatim>\<open>params.index_pattern\<close>; \<open>name_in\<close> is then the name, and \<open>contributed\<close> lists
  the names a list of elements carries.
\<close>

definition has_index_pattern :: "'r env \<Rightarrow> string \<Rightarrow> bool" where
  "has_index_pattern env obj =
     (gjson_Exists env (visState_of env obj) \<and>
      gjson_Exists env (index_pattern_of env (gjson_String env (visState_of env obj))))"

definition name_in :: "'r env \<Rightarrow> string \<Rightarrow> string" where
  "name_in env obj =
     gjson_String env (index_pattern_of env (gjson_String env (visState_of env obj)))"

definition contributed :: "'r env \<Rightarrow> string list \<Rightarrow> string list" where
  "contributed env objs = map (name_in env) (filter (has_index_pattern env) objs)"

text \<open>
  Padding on the left, as the words "left-padded" say it: the spaces come first. (The
  code pads on the right, see \<open>Sprintf_row\<close>.)
\<close>

definition left_padded :: "nat \<Rightarrow> string \<Rightarrow> string" where
  "left_padded n s = replicate (n - length s) (CHR '' '') @ s"

text \<open>An invocation with no host, no username and no password.\<close>

definition no_globals :: globals where
  "no_globals = \<lparr>verbose = False, host = '''', username = '''', password = ''''\<rparr>"

section \<open>Proofs\<close>

subsection \<open>Answers and effects\<close>

lemma searchDashboard_fst: "fst (searchDashboard env c pattern w) = found env c pattern"
  by (simp add: found_def searchDashboard_def DefaultClient_Do_def Let_def
      split: sum.splits option.splits prod.splits)

lemma getDashboard_fst: "fst (getDashboard env c ident w) = fetched env c ident"
  by (simp add: fetched_def getDashboard_def DefaultClient_Do_def Let_def
      split: sum.splits option.splits prod.splits)

lemma getIndexPattern_fst: "fst (getIndexPattern env c name w) = lookup env c name"
  by (simp add: lookup_def getIndexPattern_def DefaultClient_Do_def Let_def
      split: sum.splits option.splits prod.splits)

lemma export_loop_fst: "fst (export_loop env c names dashboard w) = resolve_all env c names dashboard"
proof (induction names arbitrary: dashboard w)
  case Nil
  show ?case by simp
next
  case (Cons name names)
  obtain r w1 where g: "getIndexPattern env c name w = (r, w1)"
    by (cases "getIndexPattern env c name w")
  have r: "lookup env c name = r"
    using getIndexPattern_fst [of env c name w] g by simp
  show ?case
  proof (cases r)
    case (Inl err)
    then show ?thesis using g r by simp
  next
    case (Inr indexPattern)
    then show ?thesis
      using g r Cons.IH by (simp add: Let_def case_prod_beta)
  qed
qed

lemma client_export_fst:
  "fst (client_export env c name w) =
     (case found env c (''\"'' @ name @ ''\"'') of
        Inl err \<Rightarrow> Inl err
      | Inr result \<Rightarrow>
         if length result = 0 then
           Inl (Errorf (''no dashboard found matching: '' @ name @ ''.\<newline>''))
         else if length result > 1 then
           Inl (Errorf (''more than one dashboard found matching: '' @ name @ ''.\<newline>''))
         else
           (case fetched env c (ID (result ! 0)) of
              Inl err \<Rightarrow> Inl err
            | Inr dashboard \<Rightarrow>
               (case scanForIndexPatterns env c dashboard of
                  Inl err \<Rightarrow> Inl err
                | Inr indiceNames \<Rightarrow> resolve_all env c indiceNames dashboard)))"
proof -
  let ?w1 = "Printf c (''searching dashboards matching name '' @ name @ ''\<newline>'') w"
  obtain r w2 where s: "searchDashboard env c (''\"'' @ name @ ''\"'') ?w1 = (r, w2)"
    by (cases "searchDashboard env c (''\"'' @ name @ ''\"'') ?w1")
  have r: "found env c (''\"'' @ name @ ''\"'') = r"
    using searchDashboard_fst [of env c "''\"'' @ name @ ''\"''" ?w1] s by simp
  show ?thesis
  proof (cases r)
    case (Inl err)
    then show ?thesis using s r by (simp add: client_export_def Let_def)
  next
    case (Inr result)
    let ?w4 = "Printf c ''retrieving partial dashboard export from api...\<newline>''
                 (Printf c (''found dashboard id '' @ ID (result ! 0)) w2)"
    obtain q w5 where f: "getDashboard env c (ID (result ! 0)) ?w4 = (q, w5)"
      by (cases "getDashboard env c (ID (result ! 0)) ?w4")
    have q: "fetched env c (ID (result ! 0)) = q"
      using getDashboard_fst [of env c "ID (result ! 0)" ?w4] f by simp
    show ?thesis
      using Inr s r f q
      by (simp add: client_export_def Let_def export_loop_fst split: sum.splits)
  qed
qed

subsection \<open>The scanner\<close>

lemma scan_loop_set:
  "set (scan_loop env vals names) = set names \<union> set (referenced env (map (gjson_String env) vals))"
  by (induction vals arbitrary: names)
     (auto simp: Let_def map_put_def referenced_def index_pattern_of_def)

lemma scan_loop_distinct: "distinct names \<Longrightarrow> distinct (scan_loop env vals names)"
  by (induction vals arbitrary: names) (auto simp: Let_def map_put_def)

lemma scan_names:
  assumes "range_visits_once env"
  shows "\<exists>names. scanForIndexPatterns env c doc = Inr names \<and> distinct names
           \<and> set names = set (found_names env doc)"
proof -
  let ?ks = "scan_loop env
     (gjson_Array env (gjson_Get env doc ''objects.#.attributes.visState'')) []"
  have d: "distinct ?ks" by (simp add: scan_loop_distinct)
  then have m: "mset (range_keys env ?ks) = mset ?ks"
    using assms by (simp add: range_visits_once_def)
  have "distinct (range_keys env ?ks)"
    using d m mset_eq_imp_distinct_iff by blast
  moreover have "set (range_keys env ?ks) = set ?ks"
    using m mset_eq_setD by blast
  ultimately show ?thesis
    by (simp add: scanForIndexPatterns_def Let_def scan_loop_set found_names_def visStates_def)
qed

lemma set_referenced: "set (referenced env vs) =
    (\<lambda>v. gjson_String env (index_pattern_of env v)) ` {v \<in> set vs. gjson_Exists env (index_pattern_of env v)}"
  by (auto simp: referenced_def)

lemma set_referenced_cong: "set vs = set vs' \<Longrightarrow> set (referenced env vs) = set (referenced env vs')"
  by (simp add: set_referenced)

subsection \<open>Running the code on the small server\<close>

lemmas demo_texts = with_objects_def with_saved_objects_def bq_def
  vis_text_def vis_object_def md_text_def md_object_def dash_object_def ip_record_def
  dashboard_record_def sales_objects_def ops_objects_def

lemmas demo_requests = dashboard_search_request_def dashboard_export_request_def
  index_pattern_request_def import_request_def

lemmas demo_simps = demo_env_def demo_client_def demo_Do_def demo_pages_def demo_Get_def
  demo_saved_objects_def demo_objects_def demo_visState_def demo_index_pattern_def leaf_def
  demo_SetRawBytes_def demo_Unmarshal_def demo_texts demo_requests

lemmas call_simps = NewRequest_def SetBasicAuth_def DefaultClient_Do_def idle_def

lemma demo_found_sales:
  \<open>found demo_env demo_client ''"Sales"''
     = Inr [\<lparr>ID = ''abc123'', Attributes = \<lparr>Title = ''Sales''\<rparr>\<rparr>]\<close>
  by (simp add: found_def searchDashboard_def call_simps demo_simps)

lemma demo_found_nothing: \<open>found demo_env demo_client ''"Nothing"'' = Inr []\<close>
  by (simp add: found_def searchDashboard_def call_simps demo_simps)

lemma demo_found_sal:
  \<open>found demo_env demo_client ''"Sal"'' =
     Inr [\<lparr>ID = ''abc123'', Attributes = \<lparr>Title = ''Sales''\<rparr>\<rparr>,
          \<lparr>ID = ''def456'', Attributes = \<lparr>Title = ''Sales EU''\<rparr>\<rparr>]\<close>
  by (simp add: found_def searchDashboard_def call_simps demo_simps)

subsection \<open>The dashboard search of export\<close>

text \<open>
  C3. Whatever the name, when the dashboard search of \<^verbatim>\<open>export\<close> answers with no
  match, \<^verbatim>\<open>export\<close> returns the error "no dashboard found matching: name" (the
  message ends with a full stop and a newline); when it answers with more than one,
  the error "more than one dashboard found matching: name". In both cases the result
  is an error, not a document.
\<close>

theorem export_dashboard_cardinality:
  assumes \<open>fst (searchDashboard env c (''"'' @ name @ ''"'') w1) = Inr result\<close>
  shows "(length result = 0 \<longrightarrow>
            fst (client_export env c name w)
              = Inl (Errorf (''no dashboard found matching: '' @ name @ ''.\<newline>'')))
       \<and> (length result > 1 \<longrightarrow>
            fst (client_export env c name w)
              = Inl (Errorf (''more than one dashboard found matching: '' @ name @ ''.\<newline>'')))"
  using assms by (simp add: client_export_fst searchDashboard_fst)

theorem export_dashboard_cardinality_witness:
  \<open>found demo_env demo_client ''"Nothing"'' = Inr []
   \<and> fst (client_export demo_env demo_client ''Nothing'' idle)
       = Inl (Errorf ''no dashboard found matching: Nothing.\<newline>'')
   \<and> length (projr (found demo_env demo_client ''"Sal"'')) = 2
   \<and> fst (client_export demo_env demo_client ''Sal'' idle)
       = Inl (Errorf ''more than one dashboard found matching: Sal.\<newline>'')\<close>
proof -
  have a: \<open>fst (searchDashboard demo_env demo_client (''"'' @ ''Nothing'' @ ''"'') idle) = Inr []\<close>
    using demo_found_nothing by (simp add: searchDashboard_fst)
  have b: \<open>fst (searchDashboard demo_env demo_client (''"'' @ ''Sal'' @ ''"'') idle)
      = Inr [\<lparr>ID = ''abc123'', Attributes = \<lparr>Title = ''Sales''\<rparr>\<rparr>,
          \<lparr>ID = ''def456'', Attributes = \<lparr>Title = ''Sales EU''\<rparr>\<rparr>]\<close>
    using demo_found_sal by (simp add: searchDashboard_fst)
  show ?thesis
    using export_dashboard_cardinality [OF a, of idle] export_dashboard_cardinality [OF b, of idle]
      demo_found_nothing demo_found_sal
    by simp
qed

subsection \<open>The dependency loop of export\<close>

lemma lookup_answered:
  assumes "answers env (index_pattern_request c name) json"
  shows "lookup env c name =
     (let patterns = gjson_Array env (gjson_Get env json ''saved_objects'')
      in if length patterns = 0 then
           Inl (Errorf (''no index-pattern found matching: '' @ name @ ''.\<newline>''))
         else if length patterns > 1 then
           Inl (Errorf (''More than one index-pattern found matching: '' @ name @ ''.\<newline>''))
         else Inr (gjson_String env (patterns ! 0)))"
  using assms
  by (auto simp: answers_def index_pattern_request_def lookup_def getIndexPattern_def call_simps
      Let_def split: sum.splits)

lemma resolve_all_first_failure:
  assumes "\<forall>m \<in> set pre. \<exists>r. lookup env c m = Inr r" and "lookup env c n = Inl e"
  shows "resolve_all env c (pre @ n # post) doc = Inl e"
  using assms by (induction pre arbitrary: doc) auto

lemma resolve_all_any_failure:
  assumes "n \<in> set names" and "lookup env c n = Inl e"
  shows "\<exists>e'. resolve_all env c names doc = Inl e'"
  using assms by (induction names arbitrary: doc) (auto split: sum.splits)

lemma client_export_one:
  assumes \<open>fst (searchDashboard env c (''"'' @ name @ ''"'') w1) = Inr [d]\<close>
    and "fst (getDashboard env c (ID d) w2) = Inr doc"
    and "scanForIndexPatterns env c doc = Inr names"
  shows "fst (client_export env c name w) = resolve_all env c names doc"
  using assms by (simp add: client_export_fst searchDashboard_fst getDashboard_fst)

lemma written_Printf: "written (Printf c msg w) = written w"
  by (simp add: written_def Printf_def)

lemma written_searchDashboard: "written (snd (searchDashboard env c pattern w)) = written w"
  by (simp add: written_def searchDashboard_def DefaultClient_Do_def Let_def
      split: sum.splits option.splits prod.splits)

lemma written_getDashboard: "written (snd (getDashboard env c ident w)) = written w"
  by (simp add: written_def getDashboard_def DefaultClient_Do_def Let_def
      split: sum.splits option.splits prod.splits)

lemma written_getIndexPattern: "written (snd (getIndexPattern env c name w)) = written w"
  by (simp add: written_def getIndexPattern_def DefaultClient_Do_def Let_def
      split: sum.splits option.splits prod.splits)

lemma written_export_loop: "written (snd (export_loop env c names doc w)) = written w"
proof (induction names arbitrary: doc w)
  case Nil
  show ?case by simp
next
  case (Cons name names)
  obtain r w1 where g: "getIndexPattern env c name w = (r, w1)"
    by (cases "getIndexPattern env c name w")
  have w1: "written w1 = written w"
    using written_getIndexPattern [of env c name w] g by simp
  show ?case
    using g w1 Cons.IH by (cases r) (simp_all add: Let_def case_prod_beta written_Printf)
qed

lemma written_client_export: "written (snd (client_export env c name w)) = written w"
proof -
  let ?w1 = "Printf c (''searching dashboards matching name '' @ name @ ''\<newline>'') w"
  obtain r w2 where s: \<open>searchDashboard env c (''"'' @ name @ ''"'') ?w1 = (r, w2)\<close>
    by (cases \<open>searchDashboard env c (''"'' @ name @ ''"'') ?w1\<close>)
  have w2: "written w2 = written w"
    using written_searchDashboard [of env c \<open>''"'' @ name @ ''"''\<close> ?w1] s
    by (simp add: written_Printf)
  show ?thesis
  proof (cases r)
    case (Inl err)
    then show ?thesis using s w2 by (simp add: client_export_def Let_def)
  next
    case (Inr result)
    let ?w4 = "Printf c ''retrieving partial dashboard export from api...\<newline>''
                 (Printf c (''found dashboard id '' @ ID (result ! 0)) w2)"
    obtain q w5 where f: "getDashboard env c (ID (result ! 0)) ?w4 = (q, w5)"
      by (cases "getDashboard env c (ID (result ! 0)) ?w4")
    have w5: "written w5 = written w"
      using written_getDashboard [of env c "ID (result ! 0)" ?w4] f w2
      by (simp add: written_Printf)
    show ?thesis
      using Inr s f w2 w5
      by (cases q)
         (simp_all add: client_export_def Let_def written_export_loop scanForIndexPatterns_def)
  qed
qed

lemma export_action_error:
  assumes "checkGlobals g = None" and "First args \<noteq> ''''"
    and "fst (client_export env (newClient g) (First args) w) = Inl e"
  shows "fst (export_action env g args w) = Some (ExitError (FromError e) 2)
       \<and> written (snd (export_action env g args w)) = written w"
proof -
  obtain r w1 where x: "client_export env (newClient g) (First args) w = (r, w1)"
    by (cases "client_export env (newClient g) (First args) w")
  have "written w1 = written w"
    using written_client_export [of env "newClient g" "First args" w] x by simp
  then show ?thesis
    using assms x by (simp add: export_action_def Let_def)
qed

lemma demo_found_ops:
  \<open>found demo_env demo_client ''"Ops"''
     = Inr [\<lparr>ID = ''ops1'', Attributes = \<lparr>Title = ''Ops''\<rparr>\<rparr>]\<close>
  by (simp add: found_def searchDashboard_def call_simps demo_simps)

lemma demo_fetched_sales:
  "fetched demo_env demo_client ''abc123'' = Inr (with_objects sales_objects)"
  by (simp add: fetched_def getDashboard_def call_simps demo_simps)

lemma demo_fetched_ops:
  "fetched demo_env demo_client ''ops1'' = Inr (with_objects ops_objects)"
  by (simp add: fetched_def getDashboard_def call_simps demo_simps)

lemma demo_scan_sales:
  "scanForIndexPatterns demo_env demo_client (with_objects sales_objects)
     = Inr [''logs-*'', ''metrics-*'']"
  by (simp add: scanForIndexPatterns_def map_put_def List.map_filter_def demo_simps)

lemma demo_scan_ops:
  "scanForIndexPatterns demo_env demo_client (with_objects ops_objects)
     = Inr [''logs-*'', ''audit'']"
  by (simp add: scanForIndexPatterns_def map_put_def List.map_filter_def demo_simps)

lemma demo_answers_logs:
  "answers demo_env (index_pattern_request demo_client ''logs-*'')
     (with_saved_objects [ip_record ''ip1'' ''logs-*''])"
  by (simp add: answers_def demo_simps)

lemma demo_answers_metrics:
  "answers demo_env (index_pattern_request demo_client ''metrics-*'')
     (with_saved_objects [ip_record ''ip2'' ''metrics-*''])"
  by (simp add: answers_def demo_simps)

lemma demo_answers_audit:
  "answers demo_env (index_pattern_request demo_client ''audit'')
     (with_saved_objects [ip_record ''ip3'' ''audit-2023'', ip_record ''ip4'' ''audit-2024''])"
  by (simp add: answers_def demo_simps)

lemma demo_answers_traces:
  "answers demo_env (index_pattern_request demo_client ''traces-*'') (with_saved_objects [])"
  by (simp add: answers_def demo_simps)

lemma demo_saved_logs:
  "gjson_Array demo_env (gjson_Get demo_env
      (with_saved_objects [ip_record ''ip1'' ''logs-*'']) ''saved_objects'')
     = [leaf (ip_record ''ip1'' ''logs-*'')]"
  by (simp add: demo_simps)

lemma demo_saved_metrics:
  "gjson_Array demo_env (gjson_Get demo_env
      (with_saved_objects [ip_record ''ip2'' ''metrics-*'']) ''saved_objects'')
     = [leaf (ip_record ''ip2'' ''metrics-*'')]"
  by (simp add: demo_simps)

lemma demo_saved_audit:
  "gjson_Array demo_env (gjson_Get demo_env
      (with_saved_objects [ip_record ''ip3'' ''audit-2023'', ip_record ''ip4'' ''audit-2024''])
      ''saved_objects'')
     = [leaf (ip_record ''ip3'' ''audit-2023''), leaf (ip_record ''ip4'' ''audit-2024'')]"
  by (simp add: demo_simps)

lemma demo_saved_traces:
  "gjson_Array demo_env (gjson_Get demo_env (with_saved_objects []) ''saved_objects'') = []"
  by (simp add: demo_simps)

lemma demo_String_leaf: "gjson_String demo_env (leaf s) = s"
  by (simp add: demo_env_def leaf_def)

lemma demo_lookup_logs:
  "lookup demo_env demo_client ''logs-*'' = Inr (ip_record ''ip1'' ''logs-*'')"
  by (simp add: lookup_answered [OF demo_answers_logs] demo_saved_logs demo_String_leaf)

lemma demo_lookup_metrics:
  "lookup demo_env demo_client ''metrics-*'' = Inr (ip_record ''ip2'' ''metrics-*'')"
  by (simp add: lookup_answered [OF demo_answers_metrics] demo_saved_metrics demo_String_leaf)

lemma demo_lookup_audit:
  "lookup demo_env demo_client ''audit''
     = Inl (Errorf ''More than one index-pattern found matching: audit.\<newline>'')"
  by (simp add: lookup_answered [OF demo_answers_audit] demo_saved_audit)

text \<open>
  C2, as stated, fails on the message for several matches: on the dashboard \<open>Ops\<close>,
  whose second index pattern \<open>audit\<close> has two matches, \<^verbatim>\<open>export\<close> returns an error
  whose message starts with a capital letter; the message of the claim is no part of
  it.
\<close>

theorem index_pattern_message_counterexample:
  "fst (client_export demo_env demo_client ''Ops'' idle)
     = Inl (Errorf ''More than one index-pattern found matching: audit.\<newline>'')
   \<and> \<not> sublist ''more than one index-pattern found matching: audit''
           ''More than one index-pattern found matching: audit.\<newline>''"
proof -
  have s: \<open>fst (searchDashboard demo_env demo_client (''"'' @ ''Ops'' @ ''"'') idle)
      = Inr [\<lparr>ID = ''ops1'', Attributes = \<lparr>Title = ''Ops''\<rparr>\<rparr>]\<close>
    using demo_found_ops by (simp add: searchDashboard_fst)
  have f: "fst (getDashboard demo_env demo_client
      (ID \<lparr>ID = ''ops1'', Attributes = \<lparr>Title = ''Ops''\<rparr>\<rparr>) idle) = Inr (with_objects ops_objects)"
    using demo_fetched_ops by (simp add: getDashboard_fst)
  have "fst (client_export demo_env demo_client ''Ops'' idle)
      = resolve_all demo_env demo_client [''logs-*'', ''audit''] (with_objects ops_objects)"
    by (rule client_export_one [OF s f demo_scan_ops])
  then have "fst (client_export demo_env demo_client ''Ops'' idle)
     = Inl (Errorf ''More than one index-pattern found matching: audit.\<newline>'')"
    by (simp add: demo_lookup_logs demo_lookup_audit)
  moreover have "\<not> sublist ''more than one index-pattern found matching: audit''
           ''More than one index-pattern found matching: audit.\<newline>''"
    by code_simp
  ultimately show ?thesis by simp
qed

text \<open>
  C2, amended. The lookup of an index pattern by \<^verbatim>\<open>getIndexPattern\<close>, when the server
  answers with status 200, asks for exactly one match: with none it fails with
  "no index-pattern found matching: name.", with several with
  "More than one index-pattern found matching: name." (capital M; both messages end
  with a newline), with one it returns the record. In \<^verbatim>\<open>export\<close>, with one dashboard
  found and its document fetched, the first lookup of the loop that fails (by the
  number of matches or by an error of the API) makes \<^verbatim>\<open>export\<close> return that very
  error, whatever followed in the list; a failing lookup anywhere in the list makes
  \<^verbatim>\<open>export\<close> return an error; and an error of \<^verbatim>\<open>export\<close> makes the command exit
  with code 2 having written no document.
\<close>

theorem dependency_lookup_fail_fast:
  \<open>(answers env (index_pattern_request c n) json
      \<and> length (gjson_Array env (gjson_Get env json ''saved_objects'')) = 0
     \<longrightarrow> lookup env c n
          = Inl (Errorf (''no index-pattern found matching: '' @ n @ ''.\<newline>'')))
   \<and> (answers env (index_pattern_request c n) json
      \<and> length (gjson_Array env (gjson_Get env json ''saved_objects'')) > 1
     \<longrightarrow> lookup env c n
          = Inl (Errorf (''More than one index-pattern found matching: '' @ n @ ''.\<newline>'')))
   \<and> (answers env (index_pattern_request c n) json
      \<and> length (gjson_Array env (gjson_Get env json ''saved_objects'')) = 1
     \<longrightarrow> lookup env c n
          = Inr (gjson_String env (gjson_Array env (gjson_Get env json ''saved_objects'') ! 0)))
   \<and> (fst (searchDashboard env c (''"'' @ name @ ''"'') w1) = Inr [d]
      \<and> fst (getDashboard env c (ID d) w2) = Inr doc
      \<and> scanForIndexPatterns env c doc = Inr (pre @ n # post)
      \<and> (\<forall>m \<in> set pre. \<exists>r. lookup env c m = Inr r)
      \<and> lookup env c n = Inl e
     \<longrightarrow> fst (client_export env c name w) = Inl e)
   \<and> (fst (searchDashboard env c (''"'' @ name @ ''"'') w1) = Inr [d]
      \<and> fst (getDashboard env c (ID d) w2) = Inr doc
      \<and> scanForIndexPatterns env c doc = Inr names
      \<and> n \<in> set names \<and> lookup env c n = Inl e
     \<longrightarrow> (\<exists>e'. fst (client_export env c name w) = Inl e'))
   \<and> (checkGlobals g = None \<and> First args \<noteq> ''''
      \<and> fst (client_export env (newClient g) (First args) w) = Inl e
     \<longrightarrow> fst (export_action env g args w) = Some (ExitError (FromError e) 2)
        \<and> written (snd (export_action env g args w)) = written w)\<close>
proof (intro conjI impI)
  assume a: "answers env (index_pattern_request c n) json
      \<and> length (gjson_Array env (gjson_Get env json ''saved_objects'')) = 0"
  then show "lookup env c n
      = Inl (Errorf (''no index-pattern found matching: '' @ n @ ''.\<newline>''))"
    using lookup_answered [of env c n json] by simp
next
  assume a: "answers env (index_pattern_request c n) json
      \<and> length (gjson_Array env (gjson_Get env json ''saved_objects'')) > 1"
  then show "lookup env c n
      = Inl (Errorf (''More than one index-pattern found matching: '' @ n @ ''.\<newline>''))"
    using lookup_answered [of env c n json] by (auto simp: Let_def)
next
  assume a: "answers env (index_pattern_request c n) json
      \<and> length (gjson_Array env (gjson_Get env json ''saved_objects'')) = 1"
  then show "lookup env c n
      = Inr (gjson_String env (gjson_Array env (gjson_Get env json ''saved_objects'') ! 0))"
    using lookup_answered [of env c n json] by (auto simp: Let_def)
next
  assume a: \<open>fst (searchDashboard env c (''"'' @ name @ ''"'') w1) = Inr [d]
      \<and> fst (getDashboard env c (ID d) w2) = Inr doc
      \<and> scanForIndexPatterns env c doc = Inr (pre @ n # post)
      \<and> (\<forall>m \<in> set pre. \<exists>r. lookup env c m = Inr r)
      \<and> lookup env c n = Inl e\<close>
  then have "fst (client_export env c name w) = resolve_all env c (pre @ n # post) doc"
    using client_export_one [of env c name w1 d w2 doc "pre @ n # post" w] by simp
  then show "fst (client_export env c name w) = Inl e"
    using a resolve_all_first_failure [of pre env c n e post doc] by simp
next
  assume a: \<open>fst (searchDashboard env c (''"'' @ name @ ''"'') w1) = Inr [d]
      \<and> fst (getDashboard env c (ID d) w2) = Inr doc
      \<and> scanForIndexPatterns env c doc = Inr names
      \<and> n \<in> set names \<and> lookup env c n = Inl e\<close>
  then have "fst (client_export env c name w) = resolve_all env c names doc"
    using client_export_one [of env c name w1 d w2 doc names w] by simp
  then show "\<exists>e'. fst (client_export env c name w) = Inl e'"
    using a resolve_all_any_failure [of n names env c e doc] by simp
next
  assume a: "checkGlobals g = None \<and> First args \<noteq> ''''
      \<and> fst (client_export env (newClient g) (First args) w) = Inl e"
  then show "fst (export_action env g args w) = Some (ExitError (FromError e) 2)"
    using export_action_error [of g args env w e] by simp
  from a show "written (snd (export_action env g args w)) = written w"
    using export_action_error [of g args env w e] by simp
qed

lemma demo_lookup_traces:
  "lookup demo_env demo_client ''traces-*''
     = Inl (Errorf ''no index-pattern found matching: traces-*.\<newline>'')"
  by (simp add: lookup_answered [OF demo_answers_traces] demo_saved_traces)

lemma demo_newClient: "newClient demo_globals = demo_client"
  by (simp add: newClient_def demo_globals_def demo_client_def)

lemma demo_checkGlobals: "checkGlobals demo_globals = None"
  by (simp add: checkGlobals_def demo_globals_def)

theorem dependency_lookup_fail_fast_witness:
  "lookup demo_env demo_client ''traces-*''
     = Inl (Errorf ''no index-pattern found matching: traces-*.\<newline>'')
   \<and> lookup demo_env demo_client ''audit''
     = Inl (Errorf ''More than one index-pattern found matching: audit.\<newline>'')
   \<and> lookup demo_env demo_client ''logs-*'' = Inr (ip_record ''ip1'' ''logs-*'')
   \<and> scanForIndexPatterns demo_env demo_client (with_objects ops_objects)
     = Inr [''logs-*'', ''audit'']
   \<and> fst (client_export demo_env demo_client ''Ops'' idle)
     = Inl (Errorf ''More than one index-pattern found matching: audit.\<newline>'')
   \<and> fst (export_action demo_env demo_globals [''Ops''] idle)
     = Some (ExitError (FromError
         (Errorf ''More than one index-pattern found matching: audit.\<newline>'')) 2)
   \<and> written (snd (export_action demo_env demo_globals [''Ops''] idle)) = []"
proof -
  let ?more = "Errorf ''More than one index-pattern found matching: audit.\<newline>''"
  let ?ops = "\<lparr>ID = ''ops1'', Attributes = \<lparr>Title = ''Ops''\<rparr>\<rparr>"
  have none: "lookup demo_env demo_client ''traces-*''
     = Inl (Errorf ''no index-pattern found matching: traces-*.\<newline>'')"
    using dependency_lookup_fail_fast
      [where env = demo_env and c = demo_client and n = "''traces-*''"
         and json = "with_saved_objects []", THEN conjunct1]
      demo_answers_traces demo_saved_traces
    by simp
  have more: "lookup demo_env demo_client ''audit'' = Inl ?more"
    using dependency_lookup_fail_fast
      [where env = demo_env and c = demo_client and n = "''audit''"
         and json = "with_saved_objects [ip_record ''ip3'' ''audit-2023'', ip_record ''ip4'' ''audit-2024'']",
         THEN conjunct2, THEN conjunct1]
      demo_answers_audit demo_saved_audit
    by simp
  have one: "lookup demo_env demo_client ''logs-*'' = Inr (ip_record ''ip1'' ''logs-*'')"
    using dependency_lookup_fail_fast
      [where env = demo_env and c = demo_client and n = "''logs-*''"
         and json = "with_saved_objects [ip_record ''ip1'' ''logs-*'']",
         THEN conjunct2, THEN conjunct2, THEN conjunct1]
      demo_answers_logs demo_saved_logs demo_String_leaf
    by simp
  have s: \<open>fst (searchDashboard demo_env demo_client (''"'' @ ''Ops'' @ ''"'') idle) = Inr [?ops]\<close>
    using demo_found_ops by (simp add: searchDashboard_fst)
  have f: "fst (getDashboard demo_env demo_client (ID ?ops) idle) = Inr (with_objects ops_objects)"
    using demo_fetched_ops by (simp add: getDashboard_fst)
  have n: "scanForIndexPatterns demo_env demo_client (with_objects ops_objects)
      = Inr ([''logs-*''] @ ''audit'' # [])"
    using demo_scan_ops by simp
  have x: "fst (client_export demo_env demo_client ''Ops'' idle) = Inl ?more"
    using dependency_lookup_fail_fast
      [where env = demo_env and c = demo_client and n = "''audit''" and name = "''Ops''"
         and ?w1.0 = idle and ?w2.0 = idle and d = ?ops and doc = "with_objects ops_objects"
         and pre = "[''logs-*'']" and post = "[]" and e = ?more and w = idle,
         THEN conjunct2, THEN conjunct2, THEN conjunct2, THEN conjunct1]
      s f n one more
    by simp
  have a: "First [''Ops''] = ''Ops''" by (simp add: First_def)
  have y: "fst (export_action demo_env demo_globals [''Ops''] idle)
            = Some (ExitError (FromError ?more) 2)
         \<and> written (snd (export_action demo_env demo_globals [''Ops''] idle)) = written idle"
    using dependency_lookup_fail_fast
      [where env = demo_env and g = demo_globals and args = "[''Ops'']" and e = ?more
         and w = idle,
         THEN conjunct2, THEN conjunct2, THEN conjunct2, THEN conjunct2, THEN conjunct2]
      demo_checkGlobals demo_newClient x a
    by simp
  have "written idle = []" by (simp add: written_def idle_def)
  then show ?thesis using none more one demo_scan_ops x y by simp
qed

subsection \<open>What export returns when every lookup succeeds\<close>

lemma resolve_all_succeeds:
  assumes "\<forall>n \<in> set names. \<exists>r. lookup env c n = Inr r"
  shows "resolve_all env c names doc =
     Inr (foldl (\<lambda>dashboard n.
            fst (sjson_SetRawBytes env dashboard ''objects.-1'' (projr (lookup env c n))))
          doc names)"
  using assms by (induction names arbitrary: doc) auto

lemma deps_succeed_lookups:
  "deps_succeed env c names doc \<Longrightarrow> \<forall>n \<in> set names. \<exists>r. lookup env c n = Inr r"
  by (induction names arbitrary: doc) (auto split: sum.splits)

lemma deps_succeed_objects:
  assumes "deps_succeed env c names doc"
  shows "\<exists>doc'. resolve_all env c names doc = Inr doc'
           \<and> objects env doc' = objects env doc @ map (\<lambda>n. projr (lookup env c n)) names"
  using assms
proof (induction names arbitrary: doc)
  case Nil
  show ?case by simp
next
  case (Cons n names)
  then obtain r where r: "lookup env c n = Inr r"
    by (auto split: sum.splits)
  let ?doc1 = "fst (sjson_SetRawBytes env doc ''objects.-1'' r)"
  have a: "objects env ?doc1 = objects env doc @ [r]"
    using Cons.prems r by (auto simp: append_ok_def split: prod.splits option.splits)
  have "deps_succeed env c names ?doc1"
    using Cons.prems r by simp
  then obtain doc' where d: "resolve_all env c names ?doc1 = Inr doc'"
      "objects env doc' = objects env ?doc1 @ map (\<lambda>n. projr (lookup env c n)) names"
    using Cons.IH by blast
  show ?case using r a d by simp
qed

lemma export_loop_append_error:
  assumes "lookup env c n = Inr r"
    and "sjson_SetRawBytes env doc0 ''objects.-1'' r = (doc1, Some err)"
  shows "fst (export_loop env c (n # rest) doc0 w3) = fst (export_loop env c rest doc1 w4)"
  using assms by (simp add: export_loop_fst del: export_loop.simps)

text \<open>
  C6. The error of the append is never read: when one dashboard is found, its document
  fetched and every lookup succeeds, \<^verbatim>\<open>export\<close> returns a document and no error,
  whatever \<^verbatim>\<open>sjson.SetRawBytes\<close> reported; the document is what the appends handed
  back, one after the other. In the loop, an append that reports an error is followed
  by the rest of the loop on the bytes it returned.
\<close>

theorem append_error_is_dropped:
  assumes \<open>fst (searchDashboard env c (''"'' @ name @ ''"'') w1) = Inr [d]\<close>
    and "fst (getDashboard env c (ID d) w2) = Inr doc"
    and "scanForIndexPatterns env c doc = Inr names"
    and "\<forall>n \<in> set names. \<exists>r. lookup env c n = Inr r"
  shows "fst (client_export env c name w) =
           Inr (foldl (\<lambda>dashboard n.
                  fst (sjson_SetRawBytes env dashboard ''objects.-1'' (projr (lookup env c n))))
                doc names)
       \<and> (\<forall>n rest doc0 doc1 r err w3 w4.
            lookup env c n = Inr r
            \<and> sjson_SetRawBytes env doc0 ''objects.-1'' r = (doc1, Some err)
           \<longrightarrow> fst (export_loop env c (n # rest) doc0 w3) = fst (export_loop env c rest doc1 w4))"
proof -
  have "fst (client_export env c name w) =
           Inr (foldl (\<lambda>dashboard n.
                  fst (sjson_SetRawBytes env dashboard ''objects.-1'' (projr (lookup env c n))))
                doc names)"
    using assms by (simp add: client_export_one resolve_all_succeeds)
  then show ?thesis
    using export_loop_append_error [of env c] by blast
qed

lemma failing_found_sales:
  \<open>found failing_env demo_client ''"Sales"''
     = Inr [\<lparr>ID = ''abc123'', Attributes = \<lparr>Title = ''Sales''\<rparr>\<rparr>]\<close>
  by (simp add: failing_env_def found_def searchDashboard_def call_simps demo_simps)

lemma failing_fetched_sales:
  "fetched failing_env demo_client ''abc123'' = Inr (with_objects sales_objects)"
  by (simp add: failing_env_def fetched_def getDashboard_def call_simps demo_simps)

lemma failing_scan_sales:
  "scanForIndexPatterns failing_env demo_client (with_objects sales_objects)
     = Inr [''logs-*'', ''metrics-*'']"
  by (simp add: failing_env_def scanForIndexPatterns_def map_put_def List.map_filter_def demo_simps)

lemma failing_lookup_logs:
  "lookup failing_env demo_client ''logs-*'' = Inr (ip_record ''ip1'' ''logs-*'')"
  by (simp add: failing_env_def lookup_def getIndexPattern_def call_simps demo_simps)

lemma failing_lookup_metrics:
  "lookup failing_env demo_client ''metrics-*'' = Inr (ip_record ''ip2'' ''metrics-*'')"
  by (simp add: failing_env_def lookup_def getIndexPattern_def call_simps demo_simps)

theorem append_error_is_dropped_witness:
  "sjson_SetRawBytes failing_env (with_objects sales_objects) ''objects.-1''
       (ip_record ''ip1'' ''logs-*'')
     = (with_objects sales_objects, Some (LibError ''sjson: no change''))
   \<and> fst (client_export failing_env demo_client ''Sales'' idle)
     = Inr (with_objects sales_objects)
   \<and> fst (export_loop failing_env demo_client [''logs-*'', ''metrics-*'']
            (with_objects sales_objects) idle)
     = fst (export_loop failing_env demo_client [''metrics-*''] (with_objects sales_objects) idle)"
proof -
  let ?sales = "\<lparr>ID = ''abc123'', Attributes = \<lparr>Title = ''Sales''\<rparr>\<rparr>"
  have s: \<open>fst (searchDashboard failing_env demo_client (''"'' @ ''Sales'' @ ''"'') idle)
      = Inr [?sales]\<close>
    using failing_found_sales by (simp add: searchDashboard_fst)
  have f: "fst (getDashboard failing_env demo_client (ID ?sales) idle)
      = Inr (with_objects sales_objects)"
    using failing_fetched_sales by (simp add: getDashboard_fst)
  have l: "\<forall>n \<in> set [''logs-*'', ''metrics-*'']. \<exists>r. lookup failing_env demo_client n = Inr r"
    by (simp add: failing_lookup_logs failing_lookup_metrics)
  have a: "sjson_SetRawBytes failing_env (with_objects sales_objects) ''objects.-1''
       (ip_record ''ip1'' ''logs-*'')
     = (with_objects sales_objects, Some (LibError ''sjson: no change''))"
    by (simp add: failing_env_def)
  note t = append_error_is_dropped [OF s f failing_scan_sales l, of idle]
  have "fst (client_export failing_env demo_client ''Sales'' idle)
     = Inr (with_objects sales_objects)"
    using t by (simp add: failing_env_def)
  moreover have "fst (export_loop failing_env demo_client [''logs-*'', ''metrics-*'']
            (with_objects sales_objects) idle)
     = fst (export_loop failing_env demo_client [''metrics-*''] (with_objects sales_objects) idle)"
    using t failing_lookup_logs a by blast
  ultimately show ?thesis using a by simp
qed

lemma demo_range: "range_visits_once demo_env"
  by (simp add: range_visits_once_def demo_env_def)

lemma demo_objects_sales: "objects demo_env (with_objects sales_objects) = sales_objects"
  by (simp add: objects_def demo_simps)

lemma demo_append_logs:
  "sjson_SetRawBytes demo_env (with_objects sales_objects) ''objects.-1''
      (ip_record ''ip1'' ''logs-*'')
     = (with_objects (sales_objects @ [ip_record ''ip1'' ''logs-*'']), None)"
  by (simp add: demo_simps)

lemma demo_objects_sales1:
  "objects demo_env (with_objects (sales_objects @ [ip_record ''ip1'' ''logs-*'']))
     = sales_objects @ [ip_record ''ip1'' ''logs-*'']"
  by (simp add: objects_def demo_simps)

lemma demo_append_metrics:
  "sjson_SetRawBytes demo_env (with_objects (sales_objects @ [ip_record ''ip1'' ''logs-*'']))
      ''objects.-1'' (ip_record ''ip2'' ''metrics-*'')
     = (with_objects (sales_objects @ [ip_record ''ip1'' ''logs-*'', ip_record ''ip2'' ''metrics-*'']),
        None)"
  by (simp add: demo_simps)

lemma demo_objects_sales2:
  "objects demo_env
     (with_objects (sales_objects @ [ip_record ''ip1'' ''logs-*'', ip_record ''ip2'' ''metrics-*'']))
     = sales_objects @ [ip_record ''ip1'' ''logs-*'', ip_record ''ip2'' ''metrics-*'']"
  by (simp add: objects_def demo_simps)

lemma demo_deps_sales:
  "deps_succeed demo_env demo_client [''logs-*'', ''metrics-*''] (with_objects sales_objects)"
  by (simp add: demo_lookup_logs demo_lookup_metrics append_ok_def demo_append_logs
      demo_append_metrics demo_objects_sales demo_objects_sales1 demo_objects_sales2)

lemma demo_found_names_sales:
  "found_names demo_env (with_objects sales_objects) = [''logs-*'', ''logs-*'', ''metrics-*'']"
  by (simp add: found_names_def referenced_def visStates_def index_pattern_of_def
      List.map_filter_def demo_simps)

text \<open>
  C1. When the search of \<^verbatim>\<open>export\<close> returns exactly one dashboard, its document is
  fetched, and every dependency lookup and append succeeds, \<^verbatim>\<open>export\<close> returns a
  document whose \<^verbatim>\<open>objects\<close> array is as long as that of the fetched document plus
  the number of distinct index-pattern names found in its visualisations.
\<close>

theorem export_objects_length:
  assumes \<open>fst (searchDashboard env c (''"'' @ name @ ''"'') w1) = Inr [d]\<close>
    and "fst (getDashboard env c (ID d) w2) = Inr doc"
    and "range_visits_once env"
    and "scanForIndexPatterns env c doc = Inr names"
    and "deps_succeed env c names doc"
  shows "\<exists>doc'. fst (client_export env c name w) = Inr doc'
           \<and> length (objects env doc')
               = length (objects env doc) + card (set (found_names env doc))"
proof -
  have "distinct names \<and> set names = set (found_names env doc)"
    using scan_names [OF assms(3), of c doc] assms(4) by simp
  then have n: "card (set (found_names env doc)) = length names"
    using distinct_card [of names] by simp
  obtain doc' where "resolve_all env c names doc = Inr doc'"
      "objects env doc' = objects env doc @ map (\<lambda>n. projr (lookup env c n)) names"
    using deps_succeed_objects [OF assms(5)] by blast
  then show ?thesis
    using n client_export_one [OF assms(1) assms(2) assms(4), of w] by simp
qed

theorem export_objects_length_witness:
  "range_visits_once demo_env
   \<and> deps_succeed demo_env demo_client [''logs-*'', ''metrics-*''] (with_objects sales_objects)
   \<and> length (objects demo_env (with_objects sales_objects)) = 5
   \<and> card (set (found_names demo_env (with_objects sales_objects))) = 2
   \<and> (\<exists>doc'. fst (client_export demo_env demo_client ''Sales'' idle) = Inr doc'
         \<and> length (objects demo_env doc') = 7)"
proof -
  let ?sales = "\<lparr>ID = ''abc123'', Attributes = \<lparr>Title = ''Sales''\<rparr>\<rparr>"
  have s: \<open>fst (searchDashboard demo_env demo_client (''"'' @ ''Sales'' @ ''"'') idle)
      = Inr [?sales]\<close>
    using demo_found_sales by (simp add: searchDashboard_fst)
  have f: "fst (getDashboard demo_env demo_client (ID ?sales) idle)
      = Inr (with_objects sales_objects)"
    using demo_fetched_sales by (simp add: getDashboard_fst)
  have l: "length (objects demo_env (with_objects sales_objects)) = 5"
    by (subst demo_objects_sales) (simp add: sales_objects_def)
  have k: "card (set (found_names demo_env (with_objects sales_objects))) = 2"
    by (simp add: demo_found_names_sales)
  show ?thesis
    using export_objects_length [OF s f demo_range demo_scan_sales demo_deps_sales, of idle]
      demo_range demo_deps_sales l k
    by simp
qed

text \<open>
  C5. For every document and every list of names whose lookups and appends all
  succeed, the loop of \<^verbatim>\<open>export\<close> returns a document whose \<^verbatim>\<open>objects\<close> start
  with the elements of the original, unchanged, followed by exactly one new element
  for each name, in the order of the loop: the record that the lookup of that name
  returned.
\<close>

theorem appended_records:
  assumes "deps_succeed env c names doc"
  shows "\<exists>doc'. fst (export_loop env c names doc w) = Inr doc'
           \<and> take (length (objects env doc)) (objects env doc') = objects env doc
           \<and> length (objects env doc') = length (objects env doc) + length names
           \<and> map Inr (drop (length (objects env doc)) (objects env doc'))
               = map (lookup env c) names"
proof -
  obtain doc' where d: "resolve_all env c names doc = Inr doc'"
      "objects env doc' = objects env doc @ map (\<lambda>n. projr (lookup env c n)) names"
    using deps_succeed_objects [OF assms] by blast
  have "map Inr (map (\<lambda>n. projr (lookup env c n)) names) = map (lookup env c) names"
    using deps_succeed_lookups [OF assms] by auto
  then show ?thesis using d by (simp add: export_loop_fst)
qed

theorem appended_records_witness:
  "deps_succeed demo_env demo_client [''logs-*'', ''metrics-*''] (with_objects sales_objects)
   \<and> (\<exists>doc'. fst (export_loop demo_env demo_client [''logs-*'', ''metrics-*'']
                   (with_objects sales_objects) idle) = Inr doc'
         \<and> take 5 (objects demo_env doc') = sales_objects
         \<and> length (objects demo_env doc') = 7
         \<and> map Inr (drop 5 (objects demo_env doc'))
             = [Inr (ip_record ''ip1'' ''logs-*''), Inr (ip_record ''ip2'' ''metrics-*'')
                 :: error + bytes])"
proof -
  have l: "length (objects demo_env (with_objects sales_objects)) = 5"
    by (subst demo_objects_sales) (simp add: sales_objects_def)
  show ?thesis
    using appended_records [OF demo_deps_sales, of idle] demo_deps_sales l
    by (simp add: demo_objects_sales demo_lookup_logs demo_lookup_metrics)
qed

subsection \<open>The scanner as a set\<close>

lemma found_names_range_keys [simp]:
  "found_names (env\<lparr>range_keys := order\<rparr>) doc = found_names env doc"
  by (simp add: found_names_def referenced_def visStates_def index_pattern_of_def)

lemma found_names_contributed:
  assumes "each_visState env doc"
  shows "found_names env doc = contributed env (objects env doc)"
proof -
  have "referenced env (map (gjson_String env) (filter (gjson_Exists env) (map (visState_of env) objs)))
      = contributed env objs" for objs
    by (induction objs)
       (auto simp: referenced_def contributed_def has_index_pattern_def name_in_def)
  then show ?thesis
    using assms by (simp add: found_names_def each_visState_def)
qed

lemma set_contributed:
  "set (contributed env objs) = name_in env ` {obj \<in> set objs. has_index_pattern env obj}"
  by (auto simp: contributed_def)

text \<open>
  C4. The scanner returns a list without repetitions whose elements are the names found
  in the document. A second scan of the same document gives the same set, whatever
  order \<^verbatim>\<open>range\<close> takes the second time; so does a scan of a document whose
  \<^verbatim>\<open>objects\<close> are the same elements in another order (for documents on which the
  path through \<^verbatim>\<open>#\<close> gives the \<^verbatim>\<open>visState\<close> of each element); and when the names
  found are \<open>logs-*\<close>, \<open>logs-*\<close>, \<open>metrics-*\<close>, the result has the two elements
  \<open>logs-*\<close> and \<open>metrics-*\<close>.
\<close>

theorem scanner_returns_a_set:
  assumes "range_visits_once env"
  shows "\<exists>names. scanForIndexPatterns env c doc = Inr names
           \<and> distinct names \<and> set names = set (found_names env doc)
           \<and> (\<forall>order names'.
                 range_visits_once (env\<lparr>range_keys := order\<rparr>)
                 \<and> scanForIndexPatterns (env\<lparr>range_keys := order\<rparr>) c doc = Inr names'
                \<longrightarrow> set names' = set names)
           \<and> (\<forall>doc' names'.
                 each_visState env doc \<and> each_visState env doc'
                 \<and> mset (objects env doc') = mset (objects env doc)
                 \<and> scanForIndexPatterns env c doc' = Inr names'
                \<longrightarrow> set names' = set names)
           \<and> (found_names env doc = [''logs-*'', ''logs-*'', ''metrics-*'']
                \<longrightarrow> set names = {''logs-*'', ''metrics-*''} \<and> length names = 2)"
proof -
  obtain names where n: "scanForIndexPatterns env c doc = Inr names" "distinct names"
      "set names = set (found_names env doc)"
    using scan_names [OF assms] by blast
  have again: "set names' = set names"
    if "range_visits_once (env\<lparr>range_keys := order\<rparr>)
        \<and> scanForIndexPatterns (env\<lparr>range_keys := order\<rparr>) c doc = Inr names'"
    for order names'
    using that scan_names [of "env\<lparr>range_keys := order\<rparr>" c doc] n(3) by auto
  have reorder: "set names' = set names"
    if h: "each_visState env doc \<and> each_visState env doc'
        \<and> mset (objects env doc') = mset (objects env doc)
        \<and> scanForIndexPatterns env c doc' = Inr names'"
    for doc' names'
  proof -
    have "set (objects env doc') = set (objects env doc)"
      using h mset_eq_setD by blast
    then have "set (found_names env doc') = set (found_names env doc)"
      using h by (simp add: found_names_contributed set_contributed)
    then show ?thesis
      using h scan_names [OF assms, of c doc'] n(3) by auto
  qed
  have two: "set names = {''logs-*'', ''metrics-*''} \<and> length names = 2"
    if h: "found_names env doc = [''logs-*'', ''logs-*'', ''metrics-*'']"
  proof -
    have s: "set names = {''logs-*'', ''metrics-*''}"
      using n(3) h by simp
    have "card (set names) = 2"
      by (simp add: s)
    then show ?thesis
      using s n(2) distinct_card [of names] by simp
  qed
  show ?thesis
    using n again reorder two by blast
qed

lemma demo_each_sales: "each_visState demo_env (with_objects sales_objects)"
  by (simp add: each_visState_def visStates_def objects_def visState_of_def
      List.map_filter_def demo_simps)

lemma demo_each_sales_rev: "each_visState demo_env (with_objects (rev sales_objects))"
  by (simp add: each_visState_def visStates_def objects_def visState_of_def
      List.map_filter_def demo_simps)

lemma demo_objects_sales_rev:
  "objects demo_env (with_objects (rev sales_objects)) = rev sales_objects"
  by (simp add: objects_def demo_simps)

lemma demo_scan_sales_rev:
  "scanForIndexPatterns demo_env demo_client (with_objects (rev sales_objects))
     = Inr [''metrics-*'', ''logs-*'']"
  by (simp add: scanForIndexPatterns_def map_put_def List.map_filter_def demo_simps)

lemma demo_scan_sales_other_order:
  "scanForIndexPatterns (demo_env\<lparr>range_keys := rev\<rparr>) demo_client (with_objects sales_objects)
     = Inr [''metrics-*'', ''logs-*'']"
  by (simp add: scanForIndexPatterns_def map_put_def List.map_filter_def demo_simps)

lemma demo_range_rev: "range_visits_once (demo_env\<lparr>range_keys := rev\<rparr>)"
  by (simp add: range_visits_once_def)

theorem scanner_returns_a_set_witness:
  "range_visits_once demo_env
   \<and> scanForIndexPatterns demo_env demo_client (with_objects sales_objects)
       = Inr [''logs-*'', ''metrics-*'']
   \<and> found_names demo_env (with_objects sales_objects) = [''logs-*'', ''logs-*'', ''metrics-*'']
   \<and> range_visits_once (demo_env\<lparr>range_keys := rev\<rparr>)
   \<and> scanForIndexPatterns (demo_env\<lparr>range_keys := rev\<rparr>) demo_client
         (with_objects sales_objects) = Inr [''metrics-*'', ''logs-*'']
   \<and> each_visState demo_env (with_objects sales_objects)
   \<and> each_visState demo_env (with_objects (rev sales_objects))
   \<and> mset (objects demo_env (with_objects (rev sales_objects)))
       = mset (objects demo_env (with_objects sales_objects))
   \<and> scanForIndexPatterns demo_env demo_client (with_objects (rev sales_objects))
       = Inr [''metrics-*'', ''logs-*'']
   \<and> set [''metrics-*'', ''logs-*''] = set [''logs-*'', ''metrics-*'']
   \<and> set [''logs-*'', ''metrics-*''] = {''logs-*'', ''metrics-*''}
   \<and> length [''logs-*'', ''metrics-*''] = 2"
proof -
  have m: "mset (objects demo_env (with_objects (rev sales_objects)))
       = mset (objects demo_env (with_objects sales_objects))"
    by (simp add: demo_objects_sales demo_objects_sales_rev)
  obtain names where n: "scanForIndexPatterns demo_env demo_client (with_objects sales_objects) = Inr names"
    and again: "\<forall>order names'. range_visits_once (demo_env\<lparr>range_keys := order\<rparr>)
                 \<and> scanForIndexPatterns (demo_env\<lparr>range_keys := order\<rparr>) demo_client
                      (with_objects sales_objects) = Inr names'
                \<longrightarrow> set names' = set names"
    and reorder: "\<forall>doc' names'. each_visState demo_env (with_objects sales_objects)
                 \<and> each_visState demo_env doc'
                 \<and> mset (objects demo_env doc') = mset (objects demo_env (with_objects sales_objects))
                 \<and> scanForIndexPatterns demo_env demo_client doc' = Inr names'
                \<longrightarrow> set names' = set names"
    and two: "found_names demo_env (with_objects sales_objects) = [''logs-*'', ''logs-*'', ''metrics-*'']
                \<longrightarrow> set names = {''logs-*'', ''metrics-*''} \<and> length names = 2"
    using scanner_returns_a_set [OF demo_range, of demo_client "with_objects sales_objects"]
    by (elim exE conjE) (rule that)
  have names: "names = [''logs-*'', ''metrics-*'']"
    using n demo_scan_sales by simp
  have a: "set [''metrics-*'', ''logs-*''] = set names"
    using again [rule_format, of rev "[''metrics-*'', ''logs-*'']"] demo_range_rev
      demo_scan_sales_other_order
    by (simp only:)
  have b: "set [''metrics-*'', ''logs-*''] = set names"
    using reorder [rule_format, of "with_objects (rev sales_objects)" "[''metrics-*'', ''logs-*'']"]
      demo_each_sales demo_each_sales_rev m demo_scan_sales_rev
    by (simp only:)
  have c: "set names = {''logs-*'', ''metrics-*''} \<and> length names = 2"
    using two [rule_format] demo_found_names_sales by (simp only:)
  have d: "set [''metrics-*'', ''logs-*''] = set [''logs-*'', ''metrics-*'']"
    using a names by (simp only:)
  have e: "set [''logs-*'', ''metrics-*''] = {''logs-*'', ''metrics-*''}
      \<and> length [''logs-*'', ''metrics-*''] = 2"
    using c names by (simp only:)
  show ?thesis
    using demo_range demo_scan_sales demo_found_names_sales demo_range_rev
      demo_scan_sales_other_order demo_each_sales demo_each_sales_rev m demo_scan_sales_rev
      d e
    by (simp only: simp_thms)
qed





subsection \<open>The requests sent\<close>

lemma searchDashboard_sent:
  "sent (snd (searchDashboard env c pattern w)) =
     (if url_Parse env (URL (dashboard_search_request c pattern)) = None
      then sent w @ [dashboard_search_request c pattern] else sent w)"
  by (simp add: searchDashboard_def dashboard_search_request_def call_simps Let_def
      split: sum.splits option.splits prod.splits)

lemma getIndexPattern_sent:
  "sent (snd (getIndexPattern env c name w)) =
     (if url_Parse env (URL (index_pattern_request c name)) = None
      then sent w @ [index_pattern_request c name] else sent w)"
  by (simp add: getIndexPattern_def index_pattern_request_def call_simps Let_def
      split: sum.splits option.splits prod.splits)

text \<open>
  C8, as stated, fails on the lookup of an index pattern: on the small server, the
  request that \<^verbatim>\<open>getIndexPattern\<close> sends for \<open>logs-*\<close> is on \<^verbatim>\<open>_find\<close> and has no
  \<^verbatim>\<open>per_page=200\<close>.
\<close>

theorem index_pattern_request_counterexample:
  \<open>map URL (sent (snd (getIndexPattern demo_env demo_client ''logs-*'' idle)))
     = [''http://kibana:5601/api/saved_objects/_find?type=index-pattern&search_fields=title&search="logs-*"'']
   \<and> \<not> sublist ''per_page=200''
        ''http://kibana:5601/api/saved_objects/_find?type=index-pattern&search_fields=title&search="logs-*"''\<close>
proof -
  have \<open>map URL (sent (snd (getIndexPattern demo_env demo_client ''logs-*'' idle)))
     = [''http://kibana:5601/api/saved_objects/_find?type=index-pattern&search_fields=title&search="logs-*"'']\<close>
    by (simp add: getIndexPattern_sent index_pattern_request_def demo_env_def demo_client_def
        idle_def)
  moreover have \<open>\<not> sublist ''per_page=200''
        ''http://kibana:5601/api/saved_objects/_find?type=index-pattern&search_fields=title&search="logs-*"''\<close>
    by code_simp
  ultimately show ?thesis by simp
qed

text \<open>
  C8, amended. The dashboard search sends one request, a GET with basic
  authentication on \<^verbatim>\<open>_find\<close> with \<^verbatim>\<open>type=dashboard\<close>, \<^verbatim>\<open>per_page=200\<close>,
  \<^verbatim>\<open>search_fields=title\<close> and the search pattern. The lookup of an index pattern
  sends one request, a GET with basic authentication on \<^verbatim>\<open>_find\<close> with
  \<^verbatim>\<open>type=index-pattern\<close>, \<^verbatim>\<open>search_fields=title\<close> and the name in double quotes,
  and no \<^verbatim>\<open>per_page\<close>. (Both when the URL parses; \<^verbatim>\<open>http.NewRequest\<close> fails
  otherwise.)
\<close>

theorem find_requests:
  \<open>(url_Parse env (Host c
        @ ''/api/saved_objects/_find?type=dashboard&per_page=200&search_fields=title&search=''
        @ pattern) = None
     \<longrightarrow> sent (snd (searchDashboard env c pattern w)) =
          sent w @ [\<lparr>Method = ''GET'',
                     URL = Host c
                       @ ''/api/saved_objects/_find?type=dashboard&per_page=200&search_fields=title&search=''
                       @ pattern,
                     Header = [], BasicAuth = Some (Username c, Password c), Payload = None\<rparr>])
   \<and> (url_Parse env (Host c
        @ ''/api/saved_objects/_find?type=index-pattern&search_fields=title&search="''
        @ name @ ''"'') = None
     \<longrightarrow> sent (snd (getIndexPattern env c name w)) =
          sent w @ [\<lparr>Method = ''GET'',
                     URL = Host c
                       @ ''/api/saved_objects/_find?type=index-pattern&search_fields=title&search="''
                       @ name @ ''"'',
                     Header = [], BasicAuth = Some (Username c, Password c), Payload = None\<rparr>])\<close>
  by (simp add: searchDashboard_sent getIndexPattern_sent dashboard_search_request_def
      index_pattern_request_def)

theorem find_requests_witness:
  \<open>map URL (sent (snd (searchDashboard demo_env demo_client ''Sal'' idle)))
     = [''http://kibana:5601/api/saved_objects/_find?type=dashboard&per_page=200&search_fields=title&search=Sal'']
   \<and> map URL (sent (snd (getIndexPattern demo_env demo_client ''metrics-*'' idle)))
     = [''http://kibana:5601/api/saved_objects/_find?type=index-pattern&search_fields=title&search="metrics-*"'']\<close>
proof -
  have p: "url_Parse demo_env u = None" for u
    by (simp add: demo_env_def)
  show ?thesis
    using find_requests [of demo_env demo_client "''Sal''" idle "''metrics-*''"] p
    by (simp add: demo_client_def idle_def)
qed

subsection \<open>The list command\<close>

lemma parse_dashboards_all:
  assumes "map (\<lambda>v. json_Unmarshal env (gjson_String env v)) vals = map Inr ds"
  shows "parse_dashboards env vals acc = Inr (acc @ ds)"
  using assms
proof (induction vals arbitrary: acc ds)
  case Nil
  then show ?case by simp
next
  case (Cons v vals)
  then obtain d ds' where "ds = d # ds'" by (cases ds) auto
  with Cons show ?case by auto
qed

lemma found_answered:
  assumes "answers env (dashboard_search_request c pattern) body"
  shows "found env c pattern =
           parse_dashboards env (gjson_Array env (gjson_Get env body ''saved_objects'')) []"
  using assms
  by (auto simp: answers_def dashboard_search_request_def found_def searchDashboard_def
      call_simps Let_def split: sum.splits)

lemma list_loop_stdout:
  "stdout (list_loop env ds w) =
     stdout w @ map (\<lambda>d. Written (Sprintf_row env (ID d) (Title (Attributes d)))) ds"
  by (induction ds arbitrary: w) (simp_all add: Write_def)

lemma list_loop_sent: "sent (list_loop env ds w) = sent w"
  by (induction ds arbitrary: w) (simp_all add: Write_def)

lemma stdout_searchDashboard: "stdout (snd (searchDashboard env c pattern w)) = stdout w"
  by (simp add: searchDashboard_def DefaultClient_Do_def Let_def
      split: sum.splits option.splits prod.splits)

lemma list_action_found:
  assumes "checkGlobals g = None" and "found env (newClient g) (First args) = Inr ds"
  shows "fst (list_action env g args w) = None
       \<and> stdout (snd (list_action env g args w)) =
           stdout w @ Written (Sprintf_row env ''ID'' ''NAME'')
             # map (\<lambda>d. Written (Sprintf_row env (ID d) (Title (Attributes d)))) ds"
proof -
  obtain r w1 where s: "searchDashboard env (newClient g) (First args) w = (r, w1)"
    by (cases "searchDashboard env (newClient g) (First args) w")
  have r: "r = Inr ds"
    using searchDashboard_fst [of env "newClient g" "First args" w] s assms(2) by simp
  have w1: "stdout w1 = stdout w"
    using stdout_searchDashboard [of env "newClient g" "First args" w] s by simp
  show ?thesis
    using assms(1) s r w1 by (simp add: list_action_def Let_def list_loop_stdout Write_def)
qed

text \<open>
  C9, as stated, fails on the padding: on the small server, \<^verbatim>\<open>list Sal\<close> writes for the
  dashboard \<open>abc123\<close> a line whose first 40 characters are the ID followed by 34
  spaces; padded on the left they would be 34 spaces followed by the ID.
\<close>

theorem list_padding_counterexample:
  "stdout (snd (list_action demo_env demo_globals [''Sal''] idle)) ! 1
     = Written (''abc123'' @ replicate 34 (CHR '' '') @ '' Sales\<newline>'')
   \<and> take 40 (''abc123'' @ replicate 34 (CHR '' '') @ '' Sales\<newline>'')
       \<noteq> left_padded 40 ''abc123''"
proof -
  have "stdout (snd (list_action demo_env demo_globals [''Sal''] idle)) ! 1
     = Written (''abc123'' @ replicate 34 (CHR '' '') @ '' Sales\<newline>'')"
    by (simp add: list_action_def checkGlobals_def demo_globals_def newClient_def First_def
        searchDashboard_def call_simps Write_def Sprintf_row_def demo_simps)
  moreover have "take 40 (''abc123'' @ replicate 34 (CHR '' '') @ '' Sales\<newline>'')
       \<noteq> left_padded 40 ''abc123''"
    by code_simp
  ultimately show ?thesis by simp
qed

text \<open>
  C9, amended. For every list invocation with host, username and password given, when
  the server answers the search with status 200 and every element of
  \<^verbatim>\<open>saved_objects\<close> parses, whatever their number (none included), the command
  returns no error and writes, after what was written before, a header line and then
  one line for each record in the order of the server's array. A line is the ID, then
  spaces up to a width of 40 characters (padding on the right, nothing cut from a
  longer ID), then one space, the NAME and a newline; the header is the same line for
  \<open>ID\<close> and \<open>NAME\<close>.
\<close>

theorem list_output:
  assumes "checkGlobals g = None"
    and "answers env (dashboard_search_request (newClient g) (First args)) body"
    and "map (\<lambda>v. json_Unmarshal env (gjson_String env v))
           (gjson_Array env (gjson_Get env body ''saved_objects'')) = map Inr ds"
  shows "fst (list_action env g args w) = None
       \<and> stdout (snd (list_action env g args w)) =
           stdout w
           @ Written (''ID'' @ replicate (40 - utf8_RuneCountInString env ''ID'') (CHR '' '')
                      @ '' '' @ ''NAME'' @ ''\<newline>'')
           # map (\<lambda>d. Written (ID d
                      @ replicate (40 - utf8_RuneCountInString env (ID d)) (CHR '' '')
                      @ '' '' @ Title (Attributes d) @ ''\<newline>'')) ds"
proof -
  have "found env (newClient g) (First args) = Inr ds"
    using found_answered [OF assms(2)] parse_dashboards_all [OF assms(3), of "[]"] by simp
  then show ?thesis
    using list_action_found [OF assms(1), of env args ds w] by (simp add: Sprintf_row_def)
qed

lemma demo_answers_sal:
  "answers demo_env (dashboard_search_request (newClient demo_globals) (First [''Sal'']))
     (with_saved_objects [dashboard_record ''abc123'' ''Sales'', dashboard_record ''def456'' ''Sales EU''])"
  by (simp add: answers_def demo_newClient First_def demo_simps)

lemma demo_answers_nothing:
  \<open>answers demo_env (dashboard_search_request (newClient demo_globals) (First [''"Nothing"'']))
     (with_saved_objects [])\<close>
  by (simp add: answers_def demo_newClient First_def demo_simps)

lemma demo_parsed_sal:
  "map (\<lambda>v. json_Unmarshal demo_env (gjson_String demo_env v))
     (gjson_Array demo_env (gjson_Get demo_env
        (with_saved_objects [dashboard_record ''abc123'' ''Sales'', dashboard_record ''def456'' ''Sales EU''])
        ''saved_objects''))
   = map Inr [\<lparr>ID = ''abc123'', Attributes = \<lparr>Title = ''Sales''\<rparr>\<rparr>,
              \<lparr>ID = ''def456'', Attributes = \<lparr>Title = ''Sales EU''\<rparr>\<rparr>]"
  by (simp add: demo_simps)

lemma demo_parsed_nothing:
  "map (\<lambda>v. json_Unmarshal demo_env (gjson_String demo_env v))
     (gjson_Array demo_env (gjson_Get demo_env (with_saved_objects []) ''saved_objects''))
   = map Inr []"
  by (simp add: demo_simps)

theorem list_output_witness:
  \<open>fst (list_action demo_env demo_globals [''Sal''] idle) = None
   \<and> sent (snd (list_action demo_env demo_globals [''Sal''] idle))
       = [dashboard_search_request demo_client ''Sal'']
   \<and> stdout (snd (list_action demo_env demo_globals [''Sal''] idle))
       = [Written ''ID                                       NAME\<newline>'',
          Written ''abc123                                   Sales\<newline>'',
          Written ''def456                                   Sales EU\<newline>'']
   \<and> fst (list_action demo_env demo_globals [''"Nothing"''] idle) = None
   \<and> stdout (snd (list_action demo_env demo_globals [''"Nothing"''] idle))
       = [Written ''ID                                       NAME\<newline>'']\<close>
proof -
  have u: "utf8_RuneCountInString demo_env = length"
    by (simp add: demo_env_def)
  have p: "url_Parse demo_env u = None" for u
    by (simp add: demo_env_def)
  have s: "sent (snd (list_action demo_env demo_globals [''Sal''] idle))
      = [dashboard_search_request demo_client ''Sal'']"
    by (simp add: list_action_def demo_checkGlobals demo_newClient Let_def case_prod_beta
        First_def searchDashboard_sent list_loop_sent Write_def p idle_def
        split: sum.splits)
  have a: "fst (list_action demo_env demo_globals [''Sal''] idle) = None
     \<and> stdout (snd (list_action demo_env demo_globals [''Sal''] idle))
       = [Written ''ID                                       NAME\<newline>'',
          Written ''abc123                                   Sales\<newline>'',
          Written ''def456                                   Sales EU\<newline>'']"
    using list_output [OF demo_checkGlobals demo_answers_sal demo_parsed_sal, of idle]
    by (simp add: u idle_def eval_nat_numeral)
  have b: \<open>fst (list_action demo_env demo_globals [''"Nothing"''] idle) = None
     \<and> stdout (snd (list_action demo_env demo_globals [''"Nothing"''] idle))
       = [Written ''ID                                       NAME\<newline>'']\<close>
    using list_output [OF demo_checkGlobals demo_answers_nothing demo_parsed_nothing, of idle]
    by (simp add: u idle_def eval_nat_numeral)
  show ?thesis
    using a b s by simp
qed

subsection \<open>The import command\<close>

lemma import_action_exit_code: "fst (import_action env g args w) \<noteq> Some (ExitError msg 1)"
  by (simp add: import_action_def split: prod.splits option.splits)

lemma import_action_sent:
  assumes "os_Stdin env = (payload, None)"
    and "url_Parse env (URL (import_request (newClient g) payload)) = None"
  shows "sent (snd (import_action env g args w)) = sent w @ [import_request (newClient g) payload]"
  using assms
  by (simp add: import_action_def client_import_def import_request_def Header_Set_def
      call_simps Printf_def Let_def split: sum.splits prod.splits option.splits)

text \<open>
  C10. The import command never checks host, username or password. Whatever they are,
  it never exits with a validation error (code 1): it reads standard input first (a
  failed read is an exit with code 2 and nothing sent) and then, when the URL
  parses, sends the POST request built from the host, username and password as they
  are. The export and list commands, on the contrary, return the error of
  \<^verbatim>\<open>checkGlobals\<close> and do nothing else; an empty host, username or password is such
  an error, with code 1.
\<close>

theorem import_has_no_validation:
  "(\<forall>msg. fst (import_action env g args w) \<noteq> Some (ExitError msg 1))
   \<and> (\<forall>bytes err. os_Stdin env = (bytes, Some err)
        \<longrightarrow> import_action env g args w
            = (Some (ExitError (FromError (Wrap err ''could not read import input'')) 2), w))
   \<and> (\<forall>payload. os_Stdin env = (payload, None)
          \<and> url_Parse env (host g @ ''/api/kibana/dashboards/import?force=true'') = None
        \<longrightarrow> sent (snd (import_action env g args w))
            = sent w @ [\<lparr>Method = ''POST'',
                          URL = host g @ ''/api/kibana/dashboards/import?force=true'',
                          Header = [(''Content-Type'', ''application/json''),
                                    (''kbn-xsrf'', ''true'')],
                          BasicAuth = Some (username g, password g),
                          Payload = Some payload\<rparr>])
   \<and> (\<forall>err. checkGlobals g = Some err
        \<longrightarrow> export_action env g args w = (Some err, w)
          \<and> list_action env g args w = (Some err, w))
   \<and> (host g = '''' \<or> username g = '''' \<or> password g = ''''
        \<longrightarrow> (\<exists>m. checkGlobals g = Some (ExitError (Message m) 1)))"
proof (intro conjI allI impI)
  fix msg
  show "fst (import_action env g args w) \<noteq> Some (ExitError msg 1)"
    by (rule import_action_exit_code)
next
  fix bytes err
  assume "os_Stdin env = (bytes, Some err)"
  then show "import_action env g args w
      = (Some (ExitError (FromError (Wrap err ''could not read import input'')) 2), w)"
    by (simp add: import_action_def)
next
  fix payload
  assume "os_Stdin env = (payload, None)
      \<and> url_Parse env (host g @ ''/api/kibana/dashboards/import?force=true'') = None"
  then show "sent (snd (import_action env g args w))
      = sent w @ [\<lparr>Method = ''POST'',
                    URL = host g @ ''/api/kibana/dashboards/import?force=true'',
                    Header = [(''Content-Type'', ''application/json''), (''kbn-xsrf'', ''true'')],
                    BasicAuth = Some (username g, password g),
                    Payload = Some payload\<rparr>]"
    using import_action_sent [of env payload g args w]
    by (simp add: import_request_def newClient_def)
next
  fix err
  assume "checkGlobals g = Some err"
  then show "export_action env g args w = (Some err, w)"
    by (simp add: export_action_def)
next
  fix err
  assume "checkGlobals g = Some err"
  then show "list_action env g args w = (Some err, w)"
    by (simp add: list_action_def)
next
  assume "host g = '''' \<or> username g = '''' \<or> password g = ''''"
  then show "\<exists>m. checkGlobals g = Some (ExitError (Message m) 1)"
    by (auto simp: checkGlobals_def)
qed

theorem import_has_no_validation_witness:
  "host no_globals = '''' \<and> username no_globals = '''' \<and> password no_globals = ''''
   \<and> os_Stdin demo_env = (with_objects sales_objects, None)
   \<and> sent (snd (import_action demo_env no_globals [] idle))
       = [\<lparr>Method = ''POST'', URL = ''/api/kibana/dashboards/import?force=true'',
           Header = [(''Content-Type'', ''application/json''), (''kbn-xsrf'', ''true'')],
           BasicAuth = Some ('''', ''''), Payload = Some (with_objects sales_objects)\<rparr>]
   \<and> fst (import_action demo_env no_globals [] idle)
       = Some (ExitError (FromError (LibError ''unsupported protocol scheme'')) 2)
   \<and> checkGlobals no_globals = Some (ExitError (Message ''kibana host not defined'') 1)
   \<and> export_action demo_env no_globals [''Sales''] idle
       = (Some (ExitError (Message ''kibana host not defined'') 1), idle)
   \<and> list_action demo_env no_globals [''Sal''] idle
       = (Some (ExitError (Message ''kibana host not defined'') 1), idle)"
proof -
  have g: "host no_globals = ''''" "username no_globals = ''''" "password no_globals = ''''"
    by (simp_all add: no_globals_def)
  have i: "os_Stdin demo_env = (with_objects sales_objects, None)"
    by (simp add: demo_env_def)
  have p: "url_Parse demo_env u = None" for u
    by (simp add: demo_env_def)
  have c: "checkGlobals no_globals = Some (ExitError (Message ''kibana host not defined'') 1)"
    by (simp add: checkGlobals_def no_globals_def)
  have r: "fst (import_action demo_env no_globals [] idle)
       = Some (ExitError (FromError (LibError ''unsupported protocol scheme'')) 2)"
    by (simp add: import_action_def client_import_def newClient_def no_globals_def Printf_def
        Header_Set_def call_simps demo_env_def demo_Do_def)
  have s: "sent (snd (import_action demo_env no_globals [] idle))
       = [\<lparr>Method = ''POST'', URL = ''/api/kibana/dashboards/import?force=true'',
           Header = [(''Content-Type'', ''application/json''), (''kbn-xsrf'', ''true'')],
           BasicAuth = Some ('''', ''''), Payload = Some (with_objects sales_objects)\<rparr>]"
    using import_has_no_validation [of demo_env no_globals "[]" idle, THEN conjunct2,
        THEN conjunct2, THEN conjunct1, rule_format, of "with_objects sales_objects"] i p g
    by (simp add: idle_def)
  have e: "export_action demo_env no_globals [''Sales''] idle
       = (Some (ExitError (Message ''kibana host not defined'') 1), idle)"
    using import_has_no_validation [of demo_env no_globals "[''Sales'']" idle, THEN conjunct2,
        THEN conjunct2, THEN conjunct2, THEN conjunct1, rule_format, OF c]
    by simp
  have l: "list_action demo_env no_globals [''Sal''] idle
       = (Some (ExitError (Message ''kibana host not defined'') 1), idle)"
    using import_has_no_validation [of demo_env no_globals "[''Sal'']" idle, THEN conjunct2,
        THEN conjunct2, THEN conjunct2, THEN conjunct1, rule_format, OF c]
    by simp
  show ?thesis
    using g i s r c e l by simp
qed

end
